theory Spec2Isabelle
  imports Main
begin

section \<open>JavaScript strings\<close>

text \<open>
  A JavaScript string is modelled as a \<^typ>\<open>string\<close>; one \<^typ>\<open>char\<close> stands for one code unit
  below 256. Indices are \<^typ>\<open>int\<close>, as the source compares them with \<open>-1\<close>.
\<close>

definition substring :: "string \<Rightarrow> int \<Rightarrow> int \<Rightarrow> string" where
  \<comment> \<open>\<open>s.substring(a, b)\<close>: both indices are clamped to \<open>0..length\<close> and swapped when \<open>a > b\<close>.\<close>
  "substring s a b =
     (let n = int (length s);
          a' = max 0 (min a n);
          b' = max 0 (min b n)
      in take (nat (max a' b') - nat (min a' b')) (drop (nat (min a' b')) s))"

definition substringFrom :: "string \<Rightarrow> int \<Rightarrow> string" where
  \<comment> \<open>\<open>s.substring(a)\<close>\<close>
  "substringFrom s a = substring s a (int (length s))"

definition startsWith :: "string \<Rightarrow> string \<Rightarrow> bool" where
  "startsWith s p = (take (length p) s = p)"

definition endsWith :: "string \<Rightarrow> string \<Rightarrow> bool" where
  "endsWith s p = (length p \<le> length s \<and> drop (length s - length p) s = p)"

fun indexFrom :: "string \<Rightarrow> string \<Rightarrow> nat \<Rightarrow> int" where
  "indexFrom p [] i = (if p = [] then int i else - 1)"
| "indexFrom p (c # cs) i = (if startsWith (c # cs) p then int i else indexFrom p cs (Suc i))"

definition indexOf :: "string \<Rightarrow> string \<Rightarrow> int" where
  \<comment> \<open>\<open>s.indexOf(p)\<close>: the first index where \<open>p\<close> starts, or \<open>-1\<close>.\<close>
  "indexOf s p = indexFrom p s 0"

fun lastIndexFrom :: "string \<Rightarrow> string \<Rightarrow> nat \<Rightarrow> int \<Rightarrow> int" where
  "lastIndexFrom p [] i best = (if p = [] then int i else best)"
| "lastIndexFrom p (c # cs) i best =
     lastIndexFrom p cs (Suc i) (if startsWith (c # cs) p then int i else best)"

definition lastIndexOf :: "string \<Rightarrow> string \<Rightarrow> int" where
  \<comment> \<open>\<open>s.lastIndexOf(p)\<close>: the last index where \<open>p\<close> starts, or \<open>-1\<close>.\<close>
  "lastIndexOf s p = lastIndexFrom p s 0 (- 1)"

definition includesStr :: "string \<Rightarrow> string \<Rightarrow> bool" where
  "includesStr s p = (indexOf s p \<noteq> - 1)"

definition repeat :: "string \<Rightarrow> nat \<Rightarrow> string" where
  \<comment> \<open>\<open>s.repeat(n)\<close> for a count that is not negative.\<close>
  "repeat s n = concat (replicate n s)"

definition isWord :: "char \<Rightarrow> bool" where
  \<comment> \<open>the class \<open>\w\<close>\<close>
  "isWord c = (c \<in> set ''abcdefghijklmnopqrstuvwxyzABCDEFGHIJKLMNOPQRSTUVWXYZ0123456789_'')"

definition isSpace :: "char \<Rightarrow> bool" where
  \<comment> \<open>the class \<open>\s\<close>, for code units below 256\<close>
  "isSpace c = (c \<in> set [CHR '' '', CHR 0x09, CHR 0x0A, CHR 0x0B, CHR 0x0C, CHR 0x0D, CHR 0xA0])"

definition trimEnd :: "string \<Rightarrow> string" where
  "trimEnd s = rev (dropWhile isSpace (rev s))"

definition trimStart :: "string \<Rightarrow> string" where
  "trimStart s = dropWhile isSpace s"

fun splitAcc :: "char \<Rightarrow> string \<Rightarrow> string \<Rightarrow> string list" where
  "splitAcc sep acc [] = [rev acc]"
| "splitAcc sep acc (c # cs) =
     (if c = sep then rev acc # splitAcc sep [] cs else splitAcc sep (c # acc) cs)"

definition splitChar :: "string \<Rightarrow> char \<Rightarrow> string list" where
  \<comment> \<open>\<open>s.split(sep)\<close> for a separator of one character\<close>
  "splitChar s sep = splitAcc sep [] s"





section \<open>JavaScript regular expressions\<close>

text \<open>
  The regular expressions of the source are written as values of \<open>regex\<close> and run by a
  backtracking matcher: \<open>ends r s i\<close> lists, in the order in which backtracking tries them,
  the positions where a match of \<open>r\<close> that starts at position \<open>i\<close> of \<open>s\<close> can end. The
  first element is the match JavaScript reports. A starred expression is greedy and, as in
  ECMAScript, an iteration that consumes nothing is rejected.
\<close>

datatype regex =
    Cls "char \<Rightarrow> bool"
  | Eps
  | Seq regex regex
  | Alt regex regex
  | Star regex
  | Bol
  | Eol
  | WordB
  | Ahead bool regex
  | Behind bool regex

definition wordAt :: "string \<Rightarrow> nat \<Rightarrow> bool" where
  "wordAt s i = (i < length s \<and> isWord (s ! i))"

fun star :: "(nat \<Rightarrow> nat list) \<Rightarrow> nat \<Rightarrow> nat \<Rightarrow> nat list" where
  "star f 0 i = [i]"
| "star f (Suc n) i = concat (map (\<lambda>j. if i < j then star f n j else []) (f i)) @ [i]"

fun ends :: "regex \<Rightarrow> string \<Rightarrow> nat \<Rightarrow> nat list" where
  "ends (Cls p) s i = (if i < length s \<and> p (s ! i) then [Suc i] else [])"
| "ends Eps s i = [i]"
| "ends (Seq a b) s i = concat (map (ends b s) (ends a s i))"
| "ends (Alt a b) s i = ends a s i @ ends b s i"
| "ends (Star a) s i = star (ends a s) (length s - i) i"
| "ends Bol s i = (if i = 0 then [i] else [])"
| "ends Eol s i = (if i = length s then [i] else [])"
| "ends WordB s i = (if (0 < i \<and> wordAt s (i - 1)) \<noteq> wordAt s i then [i] else [])"
| "ends (Ahead pos a) s i = (if (ends a s i \<noteq> []) = pos then [i] else [])"
| "ends (Behind pos a) s i =
     (if (\<exists>k \<in> set [0..<Suc i]. i \<in> set (ends a s k)) = pos then [i] else [])"

definition Lit :: "char \<Rightarrow> regex" where
  "Lit c = Cls (\<lambda>x. x = c)"

definition NotLit :: "char \<Rightarrow> regex" where
  "NotLit c = Cls (\<lambda>x. x \<noteq> c)"

fun Str :: "string \<Rightarrow> regex" where
  "Str [] = Eps"
| "Str (c # cs) = Seq (Lit c) (Str cs)"

fun Seqs :: "regex list \<Rightarrow> regex" where
  "Seqs [] = Eps"
| "Seqs [r] = r"
| "Seqs (r # rs) = Seq r (Seqs rs)"

fun Alts :: "regex \<Rightarrow> regex list \<Rightarrow> regex" where
  "Alts r [] = r"
| "Alts r (q # qs) = Alt r (Alts q qs)"

definition Opt :: "regex \<Rightarrow> regex" where
  \<comment> \<open>\<open>r?\<close>\<close>
  "Opt r = Alt r Eps"

definition Spaces :: regex where
  \<comment> \<open>\<open>\s*\<close>\<close>
  "Spaces = Star (Cls isSpace)"

definition Word :: "string \<Rightarrow> regex" where
  \<comment> \<open>\<open>\bword\b\<close>\<close>
  "Word w = Seqs [WordB, Str w, WordB]"

definition Ident :: regex where
  \<comment> \<open>\<open>[\w_][\w\d_]*\<close>\<close>
  "Ident = Seq (Cls isWord) (Star (Cls isWord))"


fun searchFrom :: "regex \<Rightarrow> string \<Rightarrow> nat \<Rightarrow> nat \<Rightarrow> (nat \<times> nat) option" where
  "searchFrom r s i 0 = (case ends r s i of [] \<Rightarrow> None | e # _ \<Rightarrow> Some (i, e))"
| "searchFrom r s i (Suc n) =
     (case ends r s i of [] \<Rightarrow> searchFrom r s (Suc i) n | e # _ \<Rightarrow> Some (i, e))"

definition re_exec :: "regex \<Rightarrow> string \<Rightarrow> nat \<Rightarrow> (nat \<times> nat) option" where
  \<comment> \<open>the leftmost match that starts at or after \<open>i\<close>: its index and its end\<close>
  "re_exec r s i = (if length s < i then None else searchFrom r s i (length s - i))"

definition re_test :: "regex \<Rightarrow> string \<Rightarrow> bool" where
  \<comment> \<open>\<open>r.test(s)\<close> for a regular expression without the \<open>g\<close> flag\<close>
  "re_test r s = (re_exec r s 0 \<noteq> None)"

definition re_search :: "regex \<Rightarrow> string \<Rightarrow> int" where
  \<comment> \<open>\<open>s.search(r)\<close>\<close>
  "re_search r s = (case re_exec r s 0 of None \<Rightarrow> - 1 | Some (i, e) \<Rightarrow> int i)"

fun matchAllFrom :: "regex \<Rightarrow> string \<Rightarrow> nat \<Rightarrow> nat \<Rightarrow> (nat \<times> nat) list" where
  "matchAllFrom r s i 0 = []"
| "matchAllFrom r s i (Suc n) =
     (case re_exec r s i of
        None \<Rightarrow> []
      | Some (b, e) \<Rightarrow> (b, e) # matchAllFrom r s (if e = b then Suc e else e) n)"

definition matchAll :: "regex \<Rightarrow> string \<Rightarrow> (nat \<times> nat) list" where
  \<comment> \<open>\<open>s.matchAll(r)\<close> for a regular expression with the \<open>g\<close> flag: the index and the end
      of every match; after an empty match the search moves on by one position.\<close>
  "matchAll r s = matchAllFrom r s 0 (Suc (Suc (length s)))"

fun replaceMatches :: "(string \<Rightarrow> string) \<Rightarrow> string \<Rightarrow> nat \<Rightarrow> (nat \<times> nat) list \<Rightarrow> string" where
  "replaceMatches f s pos [] = drop pos s"
| "replaceMatches f s pos ((b, e) # ms) =
     take (b - pos) (drop pos s) @ f (take (e - b) (drop b s)) @ replaceMatches f s e ms"

definition re_replaceAll :: "regex \<Rightarrow> (string \<Rightarrow> string) \<Rightarrow> string \<Rightarrow> string" where
  \<comment> \<open>\<open>s.replace(r, f)\<close> for a regular expression with the \<open>g\<close> flag\<close>
  "re_replaceAll r f s = replaceMatches f s 0 (matchAll r s)"

definition re_replace :: "regex \<Rightarrow> (string \<Rightarrow> string) \<Rightarrow> string \<Rightarrow> string" where
  \<comment> \<open>\<open>s.replace(r, f)\<close> for a regular expression without the \<open>g\<close> flag\<close>
  "re_replace r f s =
     (case re_exec r s 0 of None \<Rightarrow> s | Some (b, e) \<Rightarrow> replaceMatches f s 0 [(b, e)])"


definition slice :: "string \<Rightarrow> int \<Rightarrow> int \<Rightarrow> string" where
  \<comment> \<open>\<open>s.slice(a, b)\<close>: a negative index counts from the end of the string.\<close>
  "slice s a b =
     (let n = int (length s);
          a' = (if a < 0 then max (n + a) 0 else min a n);
          b' = (if b < 0 then max (n + b) 0 else min b n)
      in take (nat b' - nat a') (drop (nat a') s))"

section \<open>The collaborators outside the repository's files\<close>

text \<open>
  \<open>CSymbol.ts\<close> calls the modules \<open>parsing\<close>, \<open>configuration\<close>, \<open>utility\<close>,
  \<open>extension\<close> and the class \<open>SourceSymbol\<close>, none of which is among the files verified
  here. Their functions are parameters of the model: a record of functions for each module,
  and, for \<open>SourceSymbol\<close>, fields of the symbol that hold what its methods return. In
  \<open>utility\<close>, \<open>accessSpecifierRegexp\<close> stands for the test of the regular expression it
  returns; in \<open>parsing\<close>, \<open>removeIndentation doc start text\<close> stands for
  \<open>text.replace(parse.getIndentationRegExp(symbol), '')\<close> for a symbol of the document \<open>doc\<close>
  whose range starts at \<open>start\<close>, and \<open>parse_stripDefaultValues\<close> stands for
  \<open>parse.stripDefaultValues\<close>. In \<open>utility\<close>, \<open>containsExclusive\<close> and \<open>containsExclusiveAt\<close>
  both stand for \<open>util.containsExclusive\<close>: the first for a range and a position of one
  document, given by their offsets; the second for a range and a position given by line
  and character, which is how the editor compares them when they are of two documents.
\<close>

record parsing =
  maskNonSourceText :: "string \<Rightarrow> string"
  maskComments :: "string \<Rightarrow> bool option \<Rightarrow> string"
  maskParentheses :: "string \<Rightarrow> string"
  maskAngleBrackets :: "string \<Rightarrow> bool option \<Rightarrow> string"
  maskBraces :: "string \<Rightarrow> string"
  masker :: "string \<Rightarrow> string"
  matchesPrimitiveType :: "string \<Rightarrow> bool"
  removeComments :: "string \<Rightarrow> string"
  removeIndentation :: "string \<Rightarrow> int \<Rightarrow> string \<Rightarrow> string"
  normalizeWhitespace :: "string \<Rightarrow> string"
  parse_stripDefaultValues :: "string \<Rightarrow> string"

record configuration =
  formatToCaseStyle :: "string \<Rightarrow> string \<Rightarrow> string"
  boolGetterIsPrefix :: "string \<Rightarrow> bool"

datatype AccessLevel = Public | Protected | Private

record utility =
  util_maskComments :: "string \<Rightarrow> string \<Rightarrow> string"
  util_maskStringLiterals :: "string \<Rightarrow> string \<Rightarrow> string"
  accessSpecifierRegexp :: "AccessLevel \<Rightarrow> string \<Rightarrow> bool"
  containsExclusive :: "int \<times> int \<Rightarrow> int \<Rightarrow> bool"
  containsExclusiveAt :: "(nat \<times> nat) \<times> (nat \<times> nat) \<Rightarrow> nat \<times> nat \<Rightarrow> bool"

datatype LanguageServer = cpptools | clangd | ccls | unknown

text \<open>
  A position of a document is modelled by its offset, which orders positions as the editor
  does. \<open>positionAt\<close> and \<open>offsetAt\<close> adjust an offset that lies outside the document, and a
  range orders its two ends when it is built.
\<close>

definition positionAt :: "string \<Rightarrow> int \<Rightarrow> int" where
  "positionAt doc off = max 0 (min off (int (length doc)))"

definition offsetAt :: "string \<Rightarrow> int \<Rightarrow> int" where
  "offsetAt doc pos = max 0 (min pos (int (length doc)))"

definition Range :: "int \<Rightarrow> int \<Rightarrow> int \<times> int" where
  \<comment> \<open>\<open>new vscode.Range(a, b)\<close>\<close>
  "Range a b = (min a b, max a b)"

definition getText :: "string \<Rightarrow> int \<times> int \<Rightarrow> string" where
  \<comment> \<open>\<open>document.getText(range)\<close>\<close>
  "getText doc r = substring doc (fst r) (snd r)"

text \<open>
  Modelled from the spec: the class \<open>SubSymbol\<close> is not among the repository's files. The
  specification (3) describes it as a span within a symbol's text that carries a range; its
  \<open>name\<close> is taken to be the text of the document in that range.
\<close>

record SubSymbol =
  subDocument :: string
  subRange :: "int \<times> int"

definition subName :: "SubSymbol \<Rightarrow> string" where
  "subName ss = getText (subDocument ss) (subRange ss)"

text \<open>
  The class \<open>ProposedPosition\<close> is outside these files as well; the record holds the position
  and the options that \<open>CSymbol.ts\<close> passes to its constructor (\<open>placeBefore\<close> and
  \<open>placeAfter\<close> are the options \<open>before\<close> and \<open>after\<close>).
\<close>

record ProposedPosition =
  position :: int
  relativeTo :: "(int \<times> int) option"
  placeBefore :: bool
  placeAfter :: bool
  nextTo :: bool
  indent :: bool

datatype error = RangeError | TypeError

text \<open>
  The analyzer and the files of the workspace, as \<open>isPrimitive\<close> uses them:
  \<open>findDefinitions uri position\<close> is \<open>document.findDefinitions(position)\<close> for the document
  \<open>uri\<close>, a list of locations (file, start and end of the range), and \<open>getSymbol uri position\<close>
  is the symbol that \<open>new SourceFile(uri).getSymbol(position)\<close> finds, bound to the document of
  that file.
\<close>

section \<open>\<open>CSymbol.ts\<close>: the symbol bound to its document\<close>

record Symbol =
  uri :: string
  name :: string
  document :: string
  endOfLine :: string
  rangeStart :: int
  rangeEnd :: int
  selectionStart :: int
  selectionEnd :: int
  isFunction :: bool
  isConstructor :: bool
  isMemberVariable :: bool
  isVariable :: bool
  isClassType :: bool
  isClass :: bool
  isStruct :: bool
  isNamespace :: bool
  isEnum :: bool
  mightBeTypedefOrTypeAlias :: bool
  baseName :: string

record CSymbol = Symbol +
  children :: "Symbol list"
  scopes :: "Symbol list"

definition symText :: "'a Symbol_scheme \<Rightarrow> string" where
  \<comment> \<open>\<open>text()\<close>\<close>
  "symText s = getText (document s) (Range (rangeStart s) (rangeEnd s))"

definition parsableText :: "parsing \<Rightarrow> 'a Symbol_scheme \<Rightarrow> string" where
  "parsableText P s = maskNonSourceText P (symText s)"

definition startOffset :: "'a Symbol_scheme \<Rightarrow> int" where
  \<comment> \<open>\<open>this.range\<close> is a \<open>vscode.Range\<close>, which orders its two ends\<close>
  "startOffset s = offsetAt (document s) (fst (Range (rangeStart s) (rangeEnd s)))"

definition endOffset :: "'a Symbol_scheme \<Rightarrow> int" where
  "endOffset s = offsetAt (document s) (snd (Range (rangeStart s) (rangeEnd s)))"

definition parsableLeadingText :: "parsing \<Rightarrow> 'a Symbol_scheme \<Rightarrow> string" where
  "parsableLeadingText P s =
     (let endIndex = offsetAt (document s) (selectionStart s) - startOffset s
      in substring (parsableText P s) 0 endIndex)"

definition parsableTrailingText :: "parsing \<Rightarrow> 'a Symbol_scheme \<Rightarrow> string" where
  "parsableTrailingText P s =
     (let startIndex = offsetAt (document s) (selectionEnd s) - startOffset s
      in substringFrom (parsableText P s) startIndex)"

definition re_bodyOrSemicolon :: regex where
  \<comment> \<open>\<open>/\s*{|\s*;$/\<close>\<close>
  "re_bodyOrSemicolon = Alt (Seq Spaces (Lit CHR ''{'')) (Seqs [Spaces, Lit CHR '';'', Eol])"

definition re_initializerColon :: regex where
  \<comment> \<open>\<open>/\s*:(?!:)/\<close>\<close>
  "re_initializerColon = Seqs [Spaces, Lit CHR '':'', Ahead False (Lit CHR '':'')]"

definition declarationEnd :: "parsing \<Rightarrow> 'a Symbol_scheme \<Rightarrow> int" where
  "declarationEnd P s =
     (let maskedText = maskParentheses P (parsableText P s);
          nameEndIndex = offsetAt (document s) (selectionEnd s) - startOffset s;
          bodyStartIndex = re_search re_bodyOrSemicolon (substringFrom maskedText nameEndIndex)
      in if bodyStartIndex = - 1 then rangeEnd s
         else if \<not> isConstructor s
           then positionAt (document s) (startOffset s + nameEndIndex + bodyStartIndex)
         else
           (let initializerIndex =
                  re_search re_initializerColon
                    (substring maskedText nameEndIndex (bodyStartIndex + nameEndIndex))
            in if initializerIndex = - 1
                 then positionAt (document s) (startOffset s + nameEndIndex + bodyStartIndex)
               else positionAt (document s) (startOffset s + nameEndIndex + initializerIndex)))"

definition re_semicolons :: regex where
  \<comment> \<open>\<open>(\s*;)*$\<close>\<close>
  "re_semicolons = Seq (Star (Seq Spaces (Lit CHR '';''))) Eol"

definition re_closedBody :: regex where
  \<comment> \<open>\<open>/}\s*(\s*;)*$/\<close>\<close>
  "re_closedBody = Seqs [Lit CHR ''}'', Spaces, re_semicolons]"

definition re_pureSpecifier :: regex where
  \<comment> \<open>\<open>/\s*=\s*0\s*(\s*;)*$/\<close>\<close>
  "re_pureSpecifier = Seqs [Spaces, Lit CHR ''='', Spaces, Lit CHR ''0'', Spaces, re_semicolons]"

definition re_deleteOrDefault :: regex where
  \<comment> \<open>\<open>/\s*=\s*(delete|default)\s*(\s*;)*$/\<close>\<close>
  "re_deleteOrDefault =
     Seqs [Spaces, Lit CHR ''='', Spaces, Alt (Str ''delete'') (Str ''default''), Spaces,
           re_semicolons]"

definition re_overrideOrFinal :: regex where
  \<comment> \<open>\<open>/\b(override|final)\b/\<close>\<close>
  "re_overrideOrFinal = Seqs [WordB, Alt (Str ''override'') (Str ''final''), WordB]"

definition isVirtual :: "parsing \<Rightarrow> 'a Symbol_scheme \<Rightarrow> bool" where
  "isVirtual P s =
     (if re_test (Word ''virtual'') (parsableLeadingText P s) then True
      else
        (let endIndex = offsetAt (document s) (declarationEnd P s)
                          - offsetAt (document s) (selectionEnd s);
             maskedTrailingText = maskParentheses P (slice (parsableTrailingText P s) 0 endIndex)
         in re_test re_overrideOrFinal maskedTrailingText))"

definition isPureVirtual :: "parsing \<Rightarrow> 'a Symbol_scheme \<Rightarrow> bool" where
  "isPureVirtual P s = (re_test re_pureSpecifier (parsableText P s) \<and> isVirtual P s)"

definition isDeletedOrDefaulted :: "parsing \<Rightarrow> 'a Symbol_scheme \<Rightarrow> bool" where
  "isDeletedOrDefaulted P s = re_test re_deleteOrDefault (parsableText P s)"

definition isFunctionDeclaration :: "parsing \<Rightarrow> 'a Symbol_scheme \<Rightarrow> bool" where
  "isFunctionDeclaration P s =
     (isFunction s \<and> \<not> re_test re_closedBody (parsableText P s)
      \<and> \<not> isDeletedOrDefaulted P s \<and> \<not> isPureVirtual P s)"

definition isFunctionDefinition :: "parsing \<Rightarrow> 'a Symbol_scheme \<Rightarrow> bool" where
  "isFunctionDefinition P s =
     (isFunction s \<and> re_test re_closedBody (parsableText P s)
      \<and> \<not> isDeletedOrDefaulted P s \<and> \<not> isPureVirtual P s)"


section \<open>Accessor names\<close>

definition re_boolType :: regex where
  \<comment> \<open>\<open>/\bbool\b/\<close>\<close>
  "re_boolType = Word ''bool''"

definition re_isPrefix :: regex where
  \<comment> \<open>\<open>/^[iI]s[_A-Z]/\<close>\<close>
  "re_isPrefix =
     Seqs [Bol, Cls (\<lambda>c. c = CHR ''i'' \<or> c = CHR ''I''), Lit CHR ''s'',
           Cls (\<lambda>c. c = CHR ''_'' \<or> c \<in> set ''ABCDEFGHIJKLMNOPQRSTUVWXYZ'')]"

definition getterName :: "configuration \<Rightarrow> parsing \<Rightarrow> 'a Symbol_scheme \<Rightarrow> string" where
  "getterName C P s =
     (if \<not> isMemberVariable s then []
      else
        (let formattedBaseName = formatToCaseStyle C (baseName s) (uri s)
         in if boolGetterIsPrefix C (uri s)
               \<and> (let maskedLeadingText =
                         maskParentheses P (maskAngleBrackets P (parsableLeadingText P s) None)
                   in re_test re_boolType maskedLeadingText
                      \<and> \<not> re_test re_isPrefix formattedBaseName)
              then formatToCaseStyle C (''is_'' @ formattedBaseName) (uri s)
            else if formattedBaseName \<noteq> name s then formattedBaseName
            else formatToCaseStyle C (''get_'' @ formattedBaseName) (uri s)))"

definition setterName :: "configuration \<Rightarrow> 'a Symbol_scheme \<Rightarrow> string" where
  "setterName C s =
     (if \<not> isMemberVariable s then []
      else formatToCaseStyle C (''set_'' @ baseName s) (uri s))"


subsection \<open>Boundaries\<close>

definition re_namespaceHead :: regex where
  \<comment> \<open>\<open>/\b(inline\s*)?namespace\s*[\w_][\w\d_]*(\s*::\s*(inline\s*)?[\w_][\w\d_]*)*(\s*::\s*)?$/\<close>\<close>
  "re_namespaceHead =
     Seqs [WordB, Opt (Seq (Str ''inline'') Spaces), Str ''namespace'', Spaces, Ident,
           Star (Seqs [Spaces, Str ''::'', Spaces, Opt (Seq (Str ''inline'') Spaces), Ident]),
           Opt (Seqs [Spaces, Str ''::'', Spaces]), Eol]"

definition re_templateTail :: regex where
  \<comment> \<open>\<open>/\b(template\s*<\s*>\s*)$/\<close>\<close>
  "re_templateTail =
     Seqs [WordB, Str ''template'', Spaces, Lit CHR ''<'', Spaces, Lit CHR ''>'', Spaces, Eol]"

definition trueStart :: "parsing \<Rightarrow> 'a Symbol_scheme \<Rightarrow> int" where
  "trueStart P s =
     (let beforeRange = Range 0 (rangeStart s);
          maskedText = maskComments P (getText (document s) beforeRange) (Some False)
      in if isNamespace s
           then (let namespaceStartOffset = re_search re_namespaceHead maskedText
                 in if namespaceStartOffset = - 1 then rangeStart s
                    else positionAt (document s) namespaceStartOffset)
         else
           (let maskedText' = trimEnd (maskAngleBrackets P maskedText None)
            in if \<not> endsWith maskedText' ''>'' then rangeStart s
               else
                 (let templateOffset = re_search re_templateTail maskedText'
                  in if templateOffset = - 1 then rangeStart s
                     else positionAt (document s) templateOffset)))"

definition documentEnd :: "string \<Rightarrow> int" where
  \<comment> \<open>\<open>document.lineAt(document.lineCount - 1).range.end\<close>\<close>
  "documentEnd doc = int (length doc)"

definition trueEnd :: "parsing \<Rightarrow> 'a Symbol_scheme \<Rightarrow> int" where
  "trueEnd P s =
     (if endsWith (parsableText P s) '';'' \<or> isNamespace s \<or> isFunctionDefinition P s
        then rangeEnd s
      else if isClassType s \<or> isEnum s
        then (let end = documentEnd (document s);
                  maskedText = maskNonSourceText P (getText (document s) (Range (rangeEnd s) end));
                  indexOfSemiColon = indexOf maskedText '';''
              in if indexOfSemiColon \<noteq> - 1
                   then positionAt (document s) (endOffset s + indexOfSemiColon + 1)
                 else rangeEnd s)
      else rangeEnd s)"

definition re_templateStatements :: regex where
  \<comment> \<open>\<open>/^(template(\s*<\s*>)?\s*)*/\<close>\<close>
  "re_templateStatements =
     Seq Bol
       (Star (Seqs [Str ''template'', Opt (Seqs [Spaces, Lit CHR ''<'', Spaces, Lit CHR ''>'']),
                    Spaces]))"

definition declarationStart :: "parsing \<Rightarrow> 'a Symbol_scheme \<Rightarrow> int" where
  "declarationStart P s =
     (if \<not> startsWith (parsableLeadingText P s) ''template'' then rangeStart s
      else
        (let maskedLeadingText = maskAngleBrackets P (parsableLeadingText P s) None
         in case re_exec re_templateStatements maskedLeadingText 0 of
              None \<Rightarrow> rangeStart s
            | Some (b, e) \<Rightarrow> positionAt (document s) (startOffset s + int (e - b))))"

definition bodyStart :: "parsing \<Rightarrow> 'a Symbol_scheme \<Rightarrow> int" where
  "bodyStart P s =
     (let maskedText = maskBraces P (maskParentheses P (parsableText P s));
          bodyStartIndex = lastIndexOf maskedText ''{''
      in if bodyStartIndex = - 1 then rangeEnd s
         else positionAt (document s) (startOffset s + bodyStartIndex + 1))"

definition bodyEnd :: "parsing \<Rightarrow> 'a Symbol_scheme \<Rightarrow> int" where
  "bodyEnd P s =
     (let bodyEndIndex = lastIndexOf (parsableText P s) ''}''
      in if bodyEndIndex = - 1 then rangeEnd s
         else positionAt (document s) (startOffset s + bodyEndIndex))"


subsection \<open>Lines of the document\<close>

text \<open>
  A position built from a line and a column is turned into its offset. A line ends at a
  carriage return followed by a line feed, at a line feed, or at a carriage return, and
  the text of a line is without them.
\<close>

fun linesOf :: "string \<Rightarrow> string \<Rightarrow> (string \<times> nat) list" where
  \<comment> \<open>the lines of a text, each with the length of the line break after it; the first
      argument is the line read so far, reversed\<close>
  "linesOf acc [] = [(rev acc, 0)]"
| "linesOf acc [c] =
     (if c = CHR 0x0A \<or> c = CHR 0x0D then [(rev acc, 1), ([], 0)] else [(rev (c # acc), 0)])"
| "linesOf acc (c # d # cs) =
     (if c = CHR 0x0D \<and> d = CHR 0x0A then (rev acc, 2) # linesOf [] cs
      else if c = CHR 0x0A \<or> c = CHR 0x0D then (rev acc, 1) # linesOf [] (d # cs)
      else linesOf (c # acc) (d # cs))"

definition lineTexts :: "string \<Rightarrow> string list" where
  "lineTexts doc = map fst (linesOf [] doc)"

definition lineStart :: "string \<Rightarrow> nat \<Rightarrow> nat" where
  \<comment> \<open>the offset at which the line begins\<close>
  "lineStart doc line =
     sum_list (map (\<lambda>(text, eol). length text + eol) (take line (linesOf [] doc)))"

fun lineIndex :: "(string \<times> nat) list \<Rightarrow> int \<Rightarrow> nat" where
  \<comment> \<open>the line that holds the offset; an offset past the end is on the last line\<close>
  "lineIndex [] pos = 0"
| "lineIndex [l] pos = 0"
| "lineIndex ((text, eol) # l # ls) pos =
     (if pos < int (length text + eol) then 0
      else Suc (lineIndex (l # ls) (pos - int (length text + eol))))"

definition lineAtText :: "string \<Rightarrow> nat \<Rightarrow> string" where
  \<comment> \<open>\<open>document.lineAt(i).text\<close>, for a line of the document\<close>
  "lineAtText doc i = (if i < length (lineTexts doc) then lineTexts doc ! i else [])"

definition lineOf :: "string \<Rightarrow> int \<Rightarrow> nat" where
  \<comment> \<open>\<open>position.line\<close>\<close>
  "lineOf doc pos = lineIndex (linesOf [] doc) pos"

definition Position :: "string \<Rightarrow> nat \<Rightarrow> int \<Rightarrow> int" where
  \<comment> \<open>\<open>new vscode.Position(line, character)\<close>, as an offset of \<open>doc\<close>\<close>
  "Position doc line character = int (lineStart doc line) + character"

definition lineEnd :: "string \<Rightarrow> int \<Rightarrow> int" where
  \<comment> \<open>\<open>document.lineAt(position).range.end\<close>\<close>
  "lineEnd doc pos =
     Position doc (lineOf doc pos) (int (length (lineAtText doc (lineOf doc pos))))"



subsection \<open>Comments next to a symbol\<close>

definition re_trimEnd :: "string \<Rightarrow> regex" where
  \<comment> \<open>\<open>new RegExp(`[ \\t]*${eol}?[ \\t]*$`)\<close>: the \<open>?\<close> makes the last character of \<open>eol\<close>
      optional; after an empty \<open>eol\<close> it makes the first star lazy, which matches the same
      text\<close>
  "re_trimEnd eol =
     Seqs [Star (Cls (\<lambda>c. c = CHR '' '' \<or> c = CHR 0x09)),
           (if eol = [] then Eps else Seq (Str (butlast eol)) (Opt (Lit (last eol)))),
           Star (Cls (\<lambda>c. c = CHR '' '' \<or> c = CHR 0x09)), Eol]"

fun commentLines :: "string \<Rightarrow> nat \<Rightarrow> int option" where
  \<comment> \<open>the loop \<open>for (i = trueStart.line - 1; i >= 0; --i)\<close>, started with \<open>i + 1\<close>\<close>
  "commentLines doc 0 = None"
| "commentLines doc (Suc i) =
     (if \<not> startsWith (trimStart (lineAtText doc i)) ''//''
        then (let indexOfComment = indexOf (lineAtText doc (Suc i)) ''//''
              in if indexOfComment = - 1 then None
                 else Some (Position doc (Suc i) indexOfComment))
      else commentLines doc i)"

definition leadingCommentStart :: "parsing \<Rightarrow> 'a Symbol_scheme \<Rightarrow> int" where
  "leadingCommentStart P s =
     (let beforeRange = Range 0 (trueStart P s);
          maskedText = re_replace (re_trimEnd (endOfLine s)) (\<lambda>m. [])
                         (maskComments P (getText (document s) beforeRange) None)
      in if \<not> endsWith maskedText ''//'' \<and> \<not> endsWith maskedText ''*/'' then trueStart P s
         else if endsWith maskedText ''*/''
           then (let commentStartOffset = lastIndexOf maskedText ''/*''
                 in if commentStartOffset \<noteq> - 1
                      then positionAt (document s) commentStartOffset
                    else trueStart P s)
         else (case commentLines (document s) (lineOf (document s) (trueStart P s)) of
                 Some pos \<Rightarrow> pos
               | None \<Rightarrow> trueStart P s))"

definition re_lineCommentAhead :: regex where
  \<comment> \<open>\<open>/[ \t]*\/\//\<close>\<close>
  "re_lineCommentAhead = Seq (Star (Cls (\<lambda>c. c = CHR '' '' \<or> c = CHR 0x09))) (Str ''//'')"

definition re_blockCommentAhead :: regex where
  \<comment> \<open>\<open>/[ \t]*\/\*/\<close>\<close>
  "re_blockCommentAhead = Seq (Star (Cls (\<lambda>c. c = CHR '' '' \<or> c = CHR 0x09))) (Str ''/*'')"

definition trailingCommentEnd :: "parsing \<Rightarrow> 'a Symbol_scheme \<Rightarrow> int" where
  "trailingCommentEnd P s =
     (let documentTrailingText =
            getText (document s) (Range (trueEnd P s) (documentEnd (document s)))
      in if re_test re_lineCommentAhead documentTrailingText
           then lineEnd (document s) (trueEnd P s)
         else if re_test re_blockCommentAhead documentTrailingText
                 \<and> indexOf (maskComments P documentTrailingText None) ''*/'' \<noteq> - 1
           then positionAt (document s)
                  (offsetAt (document s) (trueEnd P s)
                     + indexOf (maskComments P documentTrailingText None) ''*/'' + 2)
         else trueEnd P s)"


subsection \<open>Access regions\<close>

definition newCSymbol :: "Symbol \<Rightarrow> string \<Rightarrow> Symbol" where
  \<comment> \<open>\<open>new CSymbol(symbol, document)\<close>: the symbol bound to \<open>document\<close>. The constructor also
      adjusts the two ranges with \<open>parse.getRangeOfSymbolName\<close> and \<open>parse.getEndOfStatement\<close>,
      which are outside these files; the ranges of a \<open>Symbol\<close> are the adjusted ones.\<close>
  "newCSymbol symbol doc = symbol \<lparr> document := doc \<rparr>"

fun maskChildren :: "string \<Rightarrow> int \<Rightarrow> string \<Rightarrow> Symbol list \<Rightarrow> error + string" where
  \<comment> \<open>the loop over \<open>this.children\<close>; \<open>' '.repeat(n)\<close> throws a \<open>RangeError\<close> for \<open>n < 0\<close>,
      which does not happen here, as the start of a range is never after its end\<close>
  "maskChildren doc startOffset' text [] = Inr text"
| "maskChildren doc startOffset' text (child # rest) =
     (let childCSymbol = newCSymbol child doc;
          relativeStartOffset = startOffset childCSymbol - startOffset';
          relativeEndOffset = endOffset childCSymbol - startOffset'
      in if relativeEndOffset - relativeStartOffset < 0 then Inl RangeError
         else maskChildren doc startOffset'
                (slice text 0 relativeStartOffset
                   @ repeat '' '' (nat (relativeEndOffset - relativeStartOffset))
                   @ slice text relativeEndOffset (int (length text)))
                rest)"

definition re_accessSpecifier :: regex where
  \<comment> \<open>\<open>/\b[\w_][\w\d_]*\s*:(?!:)/g\<close>\<close>
  "re_accessSpecifier = Seqs [WordB, Ident, Spaces, Lit CHR '':'', Ahead False (Lit CHR '':'')]"

definition accessSpecifiers :: "parsing \<Rightarrow> CSymbol \<Rightarrow> error + SubSymbol list" where
  "accessSpecifiers P s =
     (if \<not> isClassType s then Inr []
      else
        (case maskChildren (document s) (startOffset s) (parsableText P s) (children s) of
           Inl e \<Rightarrow> Inl e
         | Inr childMasked \<Rightarrow>
             (let parsableText' = maskParentheses P childMasked
              in Inr (map (\<lambda>(b, e).
                        \<lparr> subDocument = document s,
                          subRange = Range (positionAt (document s) (startOffset s + int b))
                                           (positionAt (document s) (startOffset s + int e)) \<rparr>)
                      (matchAll re_accessSpecifier parsableText')))))"

fun accessRanges ::
  "(string \<Rightarrow> bool) \<Rightarrow> SubSymbol list \<Rightarrow> int option \<Rightarrow> int \<Rightarrow> (int \<times> int) list" where
  \<comment> \<open>the loop over \<open>this.accessSpecifiers\<close> with the final push; the result lists the ranges
      in the order in which they are pushed\<close>
  "accessRanges matches [] start bodyEnd' =
     (case start of Some st \<Rightarrow> [Range st bodyEnd'] | None \<Rightarrow> [])"
| "accessRanges matches (accessSpecifier # rest) start bodyEnd' =
     (if matches (subName accessSpecifier)
        then (case start of Some st \<Rightarrow> [Range st (fst (subRange accessSpecifier))] | None \<Rightarrow> [])
               @ accessRanges matches rest (Some (snd (subRange accessSpecifier))) bodyEnd'
      else (case start of
              Some st \<Rightarrow> Range st (fst (subRange accessSpecifier))
                           # accessRanges matches rest None bodyEnd'
            | None \<Rightarrow> accessRanges matches rest None bodyEnd'))"

definition defaultAccess :: "AccessLevel \<Rightarrow> 'a Symbol_scheme \<Rightarrow> bool" where
  \<comment> \<open>the two tests that give \<open>start\<close> its first value\<close>
  "defaultAccess access s =
     (if access = Private \<and> isClass s then True
      else if access = Public \<and> isStruct s then True
      else False)"

definition rangesOfAccess ::
  "utility \<Rightarrow> parsing \<Rightarrow> CSymbol \<Rightarrow> AccessLevel \<Rightarrow> error + (int \<times> int) list" where
  "rangesOfAccess U P s access =
     (let start = (if defaultAccess access s then Some (bodyStart P s) else None)
      in case accessSpecifiers P s of
           Inl e \<Rightarrow> Inl e
         | Inr specifiers \<Rightarrow>
             Inr (accessRanges (accessSpecifierRegexp U access) specifiers start (bodyEnd P s)))"

definition rangeContains :: "int \<times> int \<Rightarrow> int \<Rightarrow> bool" where
  \<comment> \<open>\<open>range.contains(position)\<close>\<close>
  "rangeContains r pos = (fst r \<le> pos \<and> pos \<le> snd r)"

definition positionHasAccess ::
  "utility \<Rightarrow> parsing \<Rightarrow> CSymbol \<Rightarrow> int \<Rightarrow> AccessLevel \<Rightarrow> error + bool" where
  "positionHasAccess U P s pos access =
     (case rangesOfAccess U P s access of
        Inl e \<Rightarrow> Inl e
      | Inr ranges \<Rightarrow> Inr (list_ex (\<lambda>r. rangeContains r pos) ranges))"


subsection \<open>A place for a new member function\<close>

definition getPositionForNewChild :: "parsing \<Rightarrow> CSymbol \<Rightarrow> ProposedPosition" where
  "getPositionForNewChild P s =
     (if 0 < length (children s)
        then (let lastChild = newCSymbol (last (children s)) (document s)
              in \<lparr> position = trailingCommentEnd P lastChild,
                   relativeTo = Some (Range (rangeStart lastChild) (rangeEnd lastChild)),
                   placeBefore = False, placeAfter = True, nextTo = False, indent = False \<rparr>)
      else \<lparr> position = bodyStart P s, relativeTo = None,
             placeBefore = False, placeAfter = True, nextTo = True, indent = True \<rparr>)"

fun findRelative ::
  "parsing \<Rightarrow> string \<Rightarrow> string \<Rightarrow> bool \<Rightarrow> Symbol list \<Rightarrow> ProposedPosition option" where
  \<comment> \<open>the first loop, over the children from the last to the first; the list is reversed\<close>
  "findRelative P doc relativeName isGetter [] = None"
| "findRelative P doc relativeName isGetter (c # rest) =
     (let child = newCSymbol c doc
      in if name child = relativeName
           then (if isGetter
                   then Some \<lparr> position = leadingCommentStart P child,
                               relativeTo = Some (Range (rangeStart child) (rangeEnd child)),
                               placeBefore = True, placeAfter = False, nextTo = True, indent = False \<rparr>
                 else Some \<lparr> position = trailingCommentEnd P child,
                             relativeTo = Some (Range (rangeStart child) (rangeEnd child)),
                             placeBefore = False, placeAfter = True, nextTo = True, indent = False \<rparr>)
         else findRelative P doc relativeName isGetter rest)"

fun findWithAccess ::
  "utility \<Rightarrow> parsing \<Rightarrow> CSymbol \<Rightarrow> AccessLevel \<Rightarrow> Symbol list
     \<Rightarrow> error + ProposedPosition option" where
  \<comment> \<open>the second loop, over the children from the last to the first; the list is reversed\<close>
  "findWithAccess U P s access [] = Inr None"
| "findWithAccess U P s access (c # rest) =
     (let child = newCSymbol c (document s)
      in case positionHasAccess U P s (rangeEnd child) access of
           Inl e \<Rightarrow> Inl e
         | Inr True \<Rightarrow>
             Inr (Some \<lparr> position = trailingCommentEnd P child,
                         relativeTo = Some (Range (rangeStart child) (rangeEnd child)),
                         placeBefore = False, placeAfter = True, nextTo = False, indent = False \<rparr>)
         | Inr False \<Rightarrow> findWithAccess U P s access rest)"

definition findPositionForNewMemberFunction ::
  "configuration \<Rightarrow> utility \<Rightarrow> parsing \<Rightarrow> CSymbol \<Rightarrow> AccessLevel \<Rightarrow> string option
     \<Rightarrow> Symbol option \<Rightarrow> error + ProposedPosition option" where
  \<comment> \<open>\<open>Inr None\<close> is the result \<open>undefined\<close>; \<open>Inl\<close> is an exception\<close>
  "findPositionForNewMemberFunction C U P s access relativeName memberVariable =
     (if \<not> isClassType s then Inr None
      else
        (case (if relativeName \<noteq> None \<and> relativeName \<noteq> Some []
               then (let isGetter = (case memberVariable of
                                       Some m \<Rightarrow> the relativeName = setterName C m
                                     | None \<Rightarrow> False)
                     in findRelative P (document s) (the relativeName) isGetter
                          (rev (children s)))
               else None) of
           Some proposed \<Rightarrow> Inr (Some proposed)
         | None \<Rightarrow>
             (case findWithAccess U P s access (rev (children s)) of
                Inl e \<Rightarrow> Inl e
              | Inr (Some proposed) \<Rightarrow> Inr (Some proposed)
              | Inr None \<Rightarrow> Inr (Some (getPositionForNewChild P s)))))"


subsection \<open>Templates\<close>

definition parsableTemplateSnippet :: "parsing \<Rightarrow> 'a Symbol_scheme \<Rightarrow> string" where
  "parsableTemplateSnippet P s =
     (let snippet = getText (document s) (Range (trueStart P s) (rangeStart s))
      in if snippet = [] then snippet else maskNonSourceText P snippet)"

definition parsableFullText :: "parsing \<Rightarrow> 'a Symbol_scheme \<Rightarrow> string" where
  "parsableFullText P s = parsableTemplateSnippet P s @ parsableText P s"

definition parsableFullLeadingText :: "parsing \<Rightarrow> 'a Symbol_scheme \<Rightarrow> string" where
  "parsableFullLeadingText P s = parsableTemplateSnippet P s @ parsableLeadingText P s"

definition re_templateFirst :: regex where
  \<comment> \<open>\<open>/^template\b/\<close>\<close>
  "re_templateFirst = Seqs [Bol, Str ''template'', WordB]"

definition re_unspecializedTemplate :: regex where
  \<comment> \<open>\<open>/\btemplate\s*<\s*[^\s>]/\<close>\<close>
  "re_unspecializedTemplate =
     Seqs [WordB, Str ''template'', Spaces, Lit CHR ''<'', Spaces,
           Cls (\<lambda>c. \<not> isSpace c \<and> c \<noteq> CHR ''>'')]"

definition isTemplate :: "parsing \<Rightarrow> 'a Symbol_scheme \<Rightarrow> bool" where
  "isTemplate P s = re_test re_templateFirst (parsableFullText P s)"

definition isUnspecializedTemplate :: "parsing \<Rightarrow> 'a Symbol_scheme \<Rightarrow> bool" where
  "isUnspecializedTemplate P s = re_test re_unspecializedTemplate (parsableFullLeadingText P s)"

definition isSpecializedTemplate :: "parsing \<Rightarrow> 'a Symbol_scheme \<Rightarrow> bool" where
  "isSpecializedTemplate P s = (isTemplate P s \<and> \<not> isUnspecializedTemplate P s)"

definition re_templateStatement :: regex where
  \<comment> \<open>\<open>/\btemplate(\s*<\s*>)?/g\<close>\<close>
  "re_templateStatement =
     Seqs [WordB, Str ''template'', Opt (Seqs [Spaces, Lit CHR ''<'', Spaces, Lit CHR ''>''])]"

definition re_defaultArgument :: regex where
  \<comment> \<open>\<open>/\s*=[^,>]+(?=[,>])/g\<close>\<close>
  "re_defaultArgument =
     Seqs [Spaces, Lit CHR ''='',
           Cls (\<lambda>c. c \<noteq> CHR '','' \<and> c \<noteq> CHR ''>''),
           Star (Cls (\<lambda>c. c \<noteq> CHR '','' \<and> c \<noteq> CHR ''>'')),
           Ahead True (Cls (\<lambda>c. c = CHR '','' \<or> c = CHR ''>''))]"

definition templateStatements :: "parsing \<Rightarrow> 'a Symbol_scheme \<Rightarrow> bool \<Rightarrow> string list" where
  "templateStatements P s removeDefaultArgs =
     (if \<not> isTemplate P s then []
      else
        (let fullTemplateRange = Range (trueStart P s) (declarationStart P s);
             fullTemplateStatement =
               removeIndentation P (document s) (rangeStart s)
                 (removeComments P (getText (document s) fullTemplateRange));
             maskedTemplateStatement = maskAngleBrackets P fullTemplateStatement None
         in map (\<lambda>(b, e).
                  (let templateStatement = slice fullTemplateStatement (int b) (int e)
                   in if \<not> endsWith templateStatement ''>'' then templateStatement @ ''<>''
                      else if removeDefaultArgs
                        then re_replaceAll re_defaultArgument (\<lambda>m. []) templateStatement
                      else templateStatement))
              (matchAll re_templateStatement maskedTemplateStatement)))"

definition re_templateParameter :: regex where
  \<comment> \<open>\<open>/(?<=[\w_][\w\d_]*\b\s*)(\.\.\.)?\s*\b([\w_][\w\d_]*)/g\<close>\<close>
  "re_templateParameter =
     Seqs [Behind True (Seqs [Ident, WordB, Spaces]), Opt (Str ''...''), Spaces, WordB, Ident]"

definition parameterName :: "string \<Rightarrow> string" where
  \<comment> \<open>\<open>parameter[2] + (parameter[1] ? parameter[1] : '')\<close> from the text of a match of
      \<open>re_templateParameter\<close>: group 1 is the ellipsis when the match starts with it, group 2
      the identifier after the blanks\<close>
  "parameterName m =
     (if startsWith m ''...'' then dropWhile isSpace (drop 3 m) @ ''...''
      else dropWhile isSpace m)"

fun join :: "string list \<Rightarrow> string \<Rightarrow> string" where
  "join [] sep = []"
| "join [x] sep = x"
| "join (x # xs) sep = x @ sep @ join xs sep"

definition templateParameters :: "parsing \<Rightarrow> 'a Symbol_scheme \<Rightarrow> string" where
  "templateParameters P s =
     (if isSpecializedTemplate P s
        then (let startIndex = offsetAt (document s) (selectionEnd s) - startOffset s;
                  maskedTrailingText =
                    maskAngleBrackets P
                      (slice (parsableText P s) startIndex (int (length (parsableText P s))))
                      None;
                  templateParamStartIndex = indexOf maskedTrailingText ''<'';
                  templateParamEndIndex = indexOf maskedTrailingText ''>''
              in if templateParamStartIndex = - 1 \<or> templateParamEndIndex = - 1 then []
                 else getText (document s)
                        (Range (positionAt (document s)
                                  (startOffset s + startIndex + templateParamStartIndex))
                               (positionAt (document s)
                                  (startOffset s + startIndex + templateParamEndIndex + 1))))
      else
        (let statements = templateStatements P s True
         in if length statements = 0 then []
            else
              (let templateStatement = last statements;
                   templateParamStart = indexOf templateStatement ''<''
               in if templateParamStart = - 1 then []
                  else
                    (let parameterList =
                           maskAngleBrackets P
                             (slice templateStatement (templateParamStart + 1) (- 1)) None
                     in ''<''
                        @ join (map (\<lambda>(b, e). parameterName (take (e - b) (drop b parameterList)))
                                  (matchAll re_templateParameter parameterList)) '', ''
                        @ ''>''))))"


subsection \<open>Scopes\<close>

definition re_unnamedCpptools :: regex where
  \<comment> \<open>\<open>/__unnamed_(class|struct|union)/\<close>\<close>
  "re_unnamedCpptools =
     Seq (Str ''__unnamed_'') (Alts (Str ''class'') [Str ''struct'', Str ''union''])"

definition re_anonymousClangd :: regex where
  \<comment> \<open>\<open>/anonymous (namespace|class|struct|union)/\<close>\<close>
  "re_anonymousClangd =
     Seq (Str ''anonymous '')
       (Alts (Str ''namespace'') [Str ''class'', Str ''struct'', Str ''union''])"

definition re_anonCcls :: regex where
  \<comment> \<open>\<open>/anon (class|struct|union)/\<close>\<close>
  "re_anonCcls = Seq (Str ''anon '') (Alts (Str ''class'') [Str ''struct'', Str ''union''])"

definition isAnonymous :: "LanguageServer \<Rightarrow> 'a Symbol_scheme \<Rightarrow> bool" where
  \<comment> \<open>the first argument is what \<open>activeLanguageServer()\<close> returns\<close>
  "isAnonymous server s =
     (case server of
        cpptools \<Rightarrow> includesStr (name s) ''anonymous-namespace''
                     \<or> re_test re_unnamedCpptools (name s)
      | clangd \<Rightarrow> re_test re_anonymousClangd (name s)
      | ccls \<Rightarrow> re_test re_anonCcls (name s)
      | unknown \<Rightarrow> False)"

definition re_beginningOfScopeString :: regex where
  \<comment> \<open>\<open>/(?<!::\s*|[\w\d_])[\w_][\w\d_]*(?=\s*::)/g\<close>\<close>
  "re_beginningOfScopeString =
     Seqs [Behind False (Alt (Seq (Str ''::'') Spaces) (Cls isWord)), Ident,
           Ahead True (Seq Spaces (Str ''::''))]"

definition scopeStringStart :: "parsing \<Rightarrow> 'a Symbol_scheme \<Rightarrow> int" where
  "scopeStringStart P s =
     (let trimmedLeadingText =
            maskAngleBrackets P (trimEnd (parsableLeadingText P s)) (Some False)
      in if \<not> endsWith trimmedLeadingText ''::'' then selectionStart s
         else (case rev (matchAll re_beginningOfScopeString trimmedLeadingText) of
                 [] \<Rightarrow> selectionStart s
               | (b, e) # _ \<Rightarrow> positionAt (document s) (startOffset s + int b)))"

record scopeContext =
  server :: LanguageServer
  findMatchingSymbol :: "Symbol \<Rightarrow> Symbol option"
  targetPosition :: int
  namespacesOnly :: bool

fun scopeWalk :: "utility \<Rightarrow> parsing \<Rightarrow> scopeContext \<Rightarrow> Symbol list \<Rightarrow> string \<Rightarrow> string" where
  \<comment> \<open>the loop \<open>for (const scope of scopes)\<close>; the last argument is \<open>scopeString\<close>\<close>
  "scopeWalk U P X [] scopeString' = scopeString'"
| "scopeWalk U P X (scope # rest) scopeString' =
     (if namespacesOnly X \<and> isClassType scope then scopeString'
      else
        (let found = findMatchingSymbol X scope
         in if found = None
               \<or> \<not> containsExclusive U
                     (Range (rangeStart (the found)) (rangeEnd (the found))) (targetPosition X)
              then (let targetScope = (case found of None \<Rightarrow> scope | Some t \<Rightarrow> t)
                    in if isAnonymous (server X) targetScope then scopeWalk U P X rest scopeString'
                       else if isNamespace targetScope
                         then scopeWalk U P X rest (scopeString' @ name targetScope @ ''::'')
                       else
                         (let nameRange = Range (scopeStringStart P targetScope)
                                                (selectionEnd targetScope)
                          in scopeWalk U P X rest
                               (scopeString' @ getText (document targetScope) nameRange
                                  @ templateParameters P targetScope @ ''::'')))
            else scopeWalk U P X rest scopeString'))"

definition scopeString :: "utility \<Rightarrow> parsing \<Rightarrow> scopeContext \<Rightarrow> CSymbol \<Rightarrow> string" where
  \<comment> \<open>\<open>scopeString(target, position, namespacesOnly)\<close>: the context holds the lookup of the
      target document, the position and the flag\<close>
  "scopeString U P X s =
     scopeWalk U P X
       (if isClassType s \<or> isNamespace s then scopes s @ [Symbol.truncate s] else scopes s) []"


subsection \<open>Primitive types\<close>

record workspace =
  findDefinitions :: "string \<Rightarrow> int \<Rightarrow> (string \<times> int \<times> int) list"
  getSymbol :: "string \<Rightarrow> int \<Rightarrow> Symbol option"

definition isTypedef :: "parsing \<Rightarrow> 'a Symbol_scheme \<Rightarrow> bool" where
  "isTypedef P s =
     (mightBeTypedefOrTypeAlias s \<and> re_test (Word ''typedef'') (parsableText P s))"

definition isTypeAlias :: "parsing \<Rightarrow> 'a Symbol_scheme \<Rightarrow> bool" where
  "isTypeAlias P s =
     (mightBeTypedefOrTypeAlias s \<and> re_test (Word ''using'') (parsableText P s)
      \<and> includesStr (parsableText P s) ''='')"

definition re_scopeResolvedIdentifier :: regex where
  \<comment> \<open>\<open>/[\w_][\w\d_]*\b(?!\s*::)/\<close>\<close>
  "re_scopeResolvedIdentifier = Seqs [Ident, WordB, Ahead False (Seq Spaces (Str ''::''))]"

definition re_classOrTemplate :: regex where
  \<comment> \<open>\<open>/\b(struct|class|(<(>(?=>)|[^>])*>))\b/\<close>\<close>
  "re_classOrTemplate =
     Seqs [WordB,
           Alts (Str ''struct'')
             [Str ''class'',
              Seqs [Lit CHR ''<'',
                    Star (Alt (Seq (Lit CHR ''>'') (Ahead True (Lit CHR ''>'')))
                              (NotLit CHR ''>'')),
                    Lit CHR ''>'']],
           WordB]"

definition re_variableSpecifiers :: regex where
  \<comment> \<open>\<open>/\b(static|const|constexpr|inline|mutable)\b/g\<close>\<close>
  "re_variableSpecifiers =
     Seqs [WordB,
           Alts (Str ''static'')
             [Str ''const'', Str ''constexpr'', Str ''inline'', Str ''mutable''],
           WordB]"

definition re_typedefSpecifiers :: regex where
  \<comment> \<open>\<open>/\b(typedef|const)\b/g\<close>\<close>
  "re_typedefSpecifiers = Seqs [WordB, Alt (Str ''typedef'') (Str ''const''), WordB]"

datatype resolution = Return bool | Resolve Symbol

definition resolveThisType :: "workspace \<Rightarrow> 'a Symbol_scheme \<Rightarrow> int \<Rightarrow> resolution" where
  \<comment> \<open>the local function \<open>resolveThisType\<close>: it returns a value, or it ends with the call
      \<open>typeCSymbol.isPrimitive(true)\<close>, which is the result \<open>Resolve typeCSymbol\<close>\<close>
  "resolveThisType W s offset =
     (case findDefinitions W (uri s) (positionAt (document s) offset) of
        [] \<Rightarrow> Return False
      | location # _ \<Rightarrow>
          (case getSymbol W (fst location) (fst (snd location)) of
             None \<Rightarrow> Return False
           | Some typeSymbol \<Rightarrow>
               if isEnum typeSymbol then Return True
               else if mightBeTypedefOrTypeAlias typeSymbol then Resolve typeSymbol
               else Return False))"

definition isPrimitiveBody ::
  "workspace \<Rightarrow> parsing \<Rightarrow> 'a Symbol_scheme \<Rightarrow> bool \<Rightarrow> resolution" where
  \<comment> \<open>the body of \<open>isPrimitive\<close> up to its recursive call\<close>
  "isPrimitiveBody W P s resolveTypes =
     (if isVariable s then
        (let leadingText = parsableLeadingText P s
         in if matchesPrimitiveType P leadingText then Return True
            else if \<not> resolveTypes then Return False
            else
              (let type = re_replaceAll re_variableSpecifiers (masker P) leadingText;
                   index = re_search re_scopeResolvedIdentifier type
               in if index \<noteq> - 1 then resolveThisType W s (startOffset s + index)
                  else Return False))
      else if isTypedef P s then
        (if matchesPrimitiveType P (parsableText P s) then Return True
         else if re_test re_classOrTemplate (parsableText P s) then Return False
         else if \<not> resolveTypes then Return False
         else
           (let maskedText = re_replaceAll re_typedefSpecifiers (masker P) (parsableText P s);
                index = re_search re_scopeResolvedIdentifier maskedText
            in if index \<noteq> - 1 then resolveThisType W s (startOffset s + index)
               else Return False))
      else if isTypeAlias P s then
        (if matchesPrimitiveType P (parsableText P s) then Return True
         else if re_test re_classOrTemplate (parsableText P s) then Return False
         else if \<not> resolveTypes then Return False
         else
           (let indexOfEquals = indexOf (parsableText P s) ''=''
            in if indexOfEquals = - 1 then Return False
               else
                 (let type = substringFrom (parsableText P s) (indexOfEquals + 1);
                      index = re_search re_scopeResolvedIdentifier type
                  in if index \<noteq> - 1 then resolveThisType W s (startOffset s + index)
                     else Return False)))
      else Return False)"

partial_function (option) isPrimitive ::
  "workspace \<Rightarrow> parsing \<Rightarrow> Symbol \<Rightarrow> bool \<Rightarrow> bool option" where
  "isPrimitive W P s resolveTypes =
     (case isPrimitiveBody W P s resolveTypes of
        Return b \<Rightarrow> Some b
      | Resolve typeCSymbol \<Rightarrow> isPrimitive W P typeCSymbol True)"

subsection \<open>Declarations and definitions of functions\<close>


















section \<open>The earlier \<open>CSymbol\<close> (\<open>part_001\<close>): masking and default values\<close>

text \<open>
  This file calls \<open>util.maskComments\<close> and \<open>util.maskStringLiterals\<close> of the module
  \<open>utility\<close>; they are the fields \<open>util_maskComments\<close> and \<open>util_maskStringLiterals\<close>.
\<close>


definition re_templateParameters :: regex where
  \<comment> \<open>\<open>/(?<=<)(>(?=>)|[^>])*(?=>)/g\<close>\<close>
  "re_templateParameters =
     Seqs [Behind True (Lit CHR ''<''),
           Star (Alt (Seq (Lit CHR ''>'') (Ahead True (Lit CHR ''>''))) (NotLit CHR ''>'')),
           Ahead True (Lit CHR ''>'')]"

definition maskUnimportantText :: "utility \<Rightarrow> string \<Rightarrow> string \<Rightarrow> string" where
  "maskUnimportantText U sourceText maskChar =
     (let sourceText1 = util_maskComments U sourceText maskChar;
          sourceText2 = util_maskStringLiterals U sourceText1 maskChar
      in re_replaceAll re_templateParameters (\<lambda>m. repeat maskChar (length m)) sourceText2)"

definition re_operatorEquals :: regex where
  \<comment> \<open>\<open>/[^\w\s]=/g\<close>\<close>
  "re_operatorEquals = Seq (Cls (\<lambda>c. \<not> isWord c \<and> \<not> isSpace c)) (Lit CHR ''='')"

definition re_spacedEquals :: regex where
  \<comment> \<open>\<open>/\b\s*=\s*\b/g\<close>\<close>
  "re_spacedEquals = Seqs [WordB, Spaces, Lit CHR ''='', Spaces, WordB]"

definition re_emptyParentheses :: regex where
  \<comment> \<open>\<open>/\(\)/g\<close>\<close>
  "re_emptyParentheses = Str ''()''"

fun stripLoop :: "string \<Rightarrow> string list \<Rightarrow> string \<Rightarrow> int \<Rightarrow> string" where
  "stripLoop parameters [] strippedParameters charPos = strippedParameters"
| "stripLoop parameters (maskedParameter # rest) strippedParameters charPos =
     stripLoop parameters rest
       (if includesStr maskedParameter ''=''
          then strippedParameters
                 @ substring parameters charPos (charPos + indexOf maskedParameter ''='') @ '',''
        else strippedParameters
               @ substring parameters charPos (charPos + int (length maskedParameter)) @ '','')
       (charPos + int (length maskedParameter) + 1)"

definition stripDefaultValues :: "utility \<Rightarrow> string \<Rightarrow> string" where
  "stripDefaultValues U parameters =
     (let parameters1 = re_replaceAll re_operatorEquals (\<lambda>m. []) parameters;
          parameters2 = re_replaceAll re_spacedEquals (\<lambda>m. ''='') parameters1;
          parameters3 = re_replaceAll re_emptyParentheses (\<lambda>m. []) parameters2;
          maskedParameters = splitChar (maskUnimportantText U parameters3 '' '') CHR '',''
          ;
          strippedParameters = stripLoop parameters3 maskedParameters [] 0
      in substring strippedParameters 0 (int (length strippedParameters) - 1))"

section \<open>A masker that follows the specification\<close>

text \<open>
  Modelled from the spec: the module \<open>parsing\<close> is not among the repository's files. The
  specification (4.1) describes its maskers: the result has the length and the line
  structure of the input, a masked region is filled with spaces, every other character is
  unchanged, nested brackets are tracked by depth, and a region that is not closed runs to
  the end of the input. \<open>specParsing\<close> is one such module; it is used where a theorem
  about every \<open>parsing\<close> is applied to a concrete text. Its test for a primitive type is
  the one of the earlier \<open>CSymbol\<close>; it leaves comments, indentation and blanks of a
  template statement as they are, which is right for the texts used here, which have none.
  Default values are stripped as the earlier \<open>CSymbol\<close> strips them.
\<close>

definition fill :: "char \<Rightarrow> char" where
  "fill c = (if c = CHR 0x0A \<or> c = CHR 0x0D then c else CHR '' '')"

fun maskBalanced :: "char \<Rightarrow> char \<Rightarrow> nat \<Rightarrow> string \<Rightarrow> string" where
  "maskBalanced l r d [] = []"
| "maskBalanced l r d (c # cs) =
     (if c = l then (if d = 0 then c else fill c) # maskBalanced l r (Suc d) cs
      else if c = r \<and> 0 < d then (if d = 1 then c else fill c) # maskBalanced l r (d - 1) cs
      else (if d = 0 then c else fill c) # maskBalanced l r d cs)"

datatype scan = Code | LineComment | BlockComment | StringLiteral | CharLiteral

fun maskScan :: "bool \<Rightarrow> bool \<Rightarrow> bool \<Rightarrow> scan \<Rightarrow> string \<Rightarrow> string" where
  "maskScan cmts lits keep m [] = []"
| "maskScan cmts lits keep Code [c] = [c]"
| "maskScan cmts lits keep Code (c # d # cs) =
     (if cmts \<and> c = CHR ''/'' \<and> d = CHR ''/''
        then (if keep then [c, d] else [fill c, fill d]) @ maskScan cmts lits keep LineComment cs
      else if cmts \<and> c = CHR ''/'' \<and> d = CHR ''*''
        then (if keep then [c, d] else [fill c, fill d]) @ maskScan cmts lits keep BlockComment cs
      else if lits \<and> c = CHR 0x22 then c # maskScan cmts lits keep StringLiteral (d # cs)
      else if lits \<and> c = CHR 0x27 then c # maskScan cmts lits keep CharLiteral (d # cs)
      else c # maskScan cmts lits keep Code (d # cs))"
| "maskScan cmts lits keep LineComment (c # cs) =
     (if c = CHR 0x0A then c # maskScan cmts lits keep Code cs
      else fill c # maskScan cmts lits keep LineComment cs)"
| "maskScan cmts lits keep BlockComment [c] = [fill c]"
| "maskScan cmts lits keep BlockComment (c # d # cs) =
     (if c = CHR ''*'' \<and> d = CHR ''/''
        then (if keep then [c, d] else [fill c, fill d]) @ maskScan cmts lits keep Code cs
      else fill c # maskScan cmts lits keep BlockComment (d # cs))"
| "maskScan cmts lits keep StringLiteral [c] = [if c = CHR 0x22 then c else fill c]"
| "maskScan cmts lits keep StringLiteral (c # d # cs) =
     (if c = CHR 0x5C then fill c # fill d # maskScan cmts lits keep StringLiteral cs
      else if c = CHR 0x22 then c # maskScan cmts lits keep Code (d # cs)
      else fill c # maskScan cmts lits keep StringLiteral (d # cs))"
| "maskScan cmts lits keep CharLiteral [c] = [if c = CHR 0x27 then c else fill c]"
| "maskScan cmts lits keep CharLiteral (c # d # cs) =
     (if c = CHR 0x5C then fill c # fill d # maskScan cmts lits keep CharLiteral cs
      else if c = CHR 0x27 then c # maskScan cmts lits keep Code (d # cs)
      else fill c # maskScan cmts lits keep CharLiteral (d # cs))"

definition re_primitiveType :: regex where
  \<comment> \<open>the names of the primitive types, as the earlier \<open>CSymbol\<close> (\<open>part_001\<close>) lists them:
      \<open>/\b(void|bool|char|wchar_t|char8_t|char16_t|char32_t|int|short|long|signed|unsigned|float|double)\b/\<close>\<close>
  "re_primitiveType =
     Seqs [WordB,
           Alts (Str ''void'')
             [Str ''bool'', Str ''char'', Str ''wchar_t'', Str ''char8_t'', Str ''char16_t'',
              Str ''char32_t'', Str ''int'', Str ''short'', Str ''long'', Str ''signed'',
              Str ''unsigned'', Str ''float'', Str ''double''],
           WordB]"

text \<open>
  Modelled from the spec: a \<open>utility\<close> whose two maskers follow the masking contract of the
  specification (4.1), with the space as filler, whose access-specifier test looks for the
  keyword of the level followed by a colon (4.5), and for which a position lies inside a
  range when it is strictly between its ends (4.4).
\<close>

definition specAccessRegexp :: "AccessLevel \<Rightarrow> regex" where
  \<comment> \<open>the keyword of the access level, then a colon\<close>
  "specAccessRegexp a =
     Seqs [WordB,
           Str (case a of Public \<Rightarrow> ''public'' | Protected \<Rightarrow> ''protected''
                | Private \<Rightarrow> ''private''),
           Spaces, Lit CHR '':'']"

definition positionBefore :: "nat \<times> nat \<Rightarrow> nat \<times> nat \<Rightarrow> bool" where
  \<comment> \<open>the order of positions: by line, then by character\<close>
  "positionBefore p q = (fst p < fst q \<or> (fst p = fst q \<and> snd p < snd q))"

definition specUtility :: utility where
  "specUtility =
     \<lparr> util_maskComments = (\<lambda>t m. maskScan True False True Code t),
       util_maskStringLiterals = (\<lambda>t m. maskScan False True True Code t),
       accessSpecifierRegexp = (\<lambda>a t. re_test (specAccessRegexp a) t),
       containsExclusive = (\<lambda>r p. fst r < p \<and> p < snd r),
       containsExclusiveAt = (\<lambda>r p. positionBefore (fst r) p \<and> positionBefore p (snd r)) \<rparr>"

definition specParsing :: parsing where
  "specParsing =
     \<lparr> maskNonSourceText = maskScan True True True Code,
       maskComments = (\<lambda>t keep. maskScan True False (keep \<noteq> Some False) Code t),
       maskParentheses = maskBalanced CHR ''('' CHR '')'' 0,
       maskAngleBrackets = (\<lambda>t keep. maskBalanced CHR ''<'' CHR ''>'' 0 t),
       maskBraces = maskBalanced CHR ''{'' CHR ''}'' 0,
       masker = map fill,
       matchesPrimitiveType =
         (\<lambda>t. re_test re_primitiveType t \<and> \<not> includesStr t ''<'' \<and> \<not> includesStr t ''>''),
       removeComments = (\<lambda>t. t),
       removeIndentation = (\<lambda>doc start t. t),
       normalizeWhitespace = (\<lambda>t. t),
       parse_stripDefaultValues = stripDefaultValues specUtility \<rparr>"

section \<open>Example inputs\<close>

definition exampleSymbol :: "string \<Rightarrow> int \<Rightarrow> int \<Rightarrow> Symbol" where
  \<comment> \<open>a symbol whose range is the whole document \<open>doc\<close> and whose name is at \<open>a..b\<close>\<close>
  "exampleSymbol doc a b =
     \<lparr> uri = ''example.h'', name = substring doc a b, document = doc,
       endOfLine = [CHR 0x0A], rangeStart = 0, rangeEnd = int (length doc), selectionStart = a, selectionEnd = b,
       isFunction = False, isConstructor = False, isMemberVariable = False,
       isVariable = False, isClassType = False, isClass = False, isStruct = False,
       isNamespace = False, isEnum = False, mightBeTypedefOrTypeAlias = False,
       baseName = substring doc a b \<rparr>"

definition pureVirtualExample :: Symbol where
  "pureVirtualExample = (exampleSymbol ''virtual void f() = 0;'' 13 14) \<lparr> isFunction := True \<rparr>"

definition snakeCase :: configuration where
  \<comment> \<open>a configuration under which names already in snake case are left as they are\<close>
  "snakeCase = \<lparr> formatToCaseStyle = (\<lambda>n u. n), boolGetterIsPrefix = (\<lambda>u. True) \<rparr>"

definition countExample :: Symbol where
  \<comment> \<open>the member \<open>int m_count;\<close>, whose base name is \<open>count\<close>\<close>
  "countExample =
     (exampleSymbol ''int m_count;'' 4 11) \<lparr> isMemberVariable := True, baseName := ''count'' \<rparr>"

definition withChildren :: "Symbol \<Rightarrow> Symbol list \<Rightarrow> CSymbol" where
  "withChildren s cs =
     \<lparr> uri = uri s, name = name s, document = document s, endOfLine = endOfLine s,
       rangeStart = rangeStart s, rangeEnd = rangeEnd s,
       selectionStart = selectionStart s, selectionEnd = selectionEnd s,
       isFunction = isFunction s, isConstructor = isConstructor s,
       isMemberVariable = isMemberVariable s, isVariable = isVariable s,
       isClassType = isClassType s, isClass = isClass s, isStruct = isStruct s,
       isNamespace = isNamespace s, isEnum = isEnum s,
       mightBeTypedefOrTypeAlias = mightBeTypedefOrTypeAlias s, baseName = baseName s,
       children = cs, scopes = [] \<rparr>"

definition classText :: string where
  "classText = ''class C { int a; public: int b; private: int c; };''"

definition memberOf :: "string \<Rightarrow> int \<Rightarrow> int \<Rightarrow> int \<Rightarrow> int \<Rightarrow> Symbol" where
  \<comment> \<open>a member variable of \<open>doc\<close> with range \<open>a..b\<close> and its name at \<open>c..d\<close>\<close>
  "memberOf doc a b c d =
     (exampleSymbol doc c d)
       \<lparr> rangeStart := a, rangeEnd := b, isMemberVariable := True, isVariable := True \<rparr>"

definition classExample :: CSymbol where
  \<comment> \<open>the class of the claim, with its members \<open>a\<close>, \<open>b\<close> and \<open>c\<close> as children\<close>
  "classExample =
     withChildren ((exampleSymbol classText 6 7) \<lparr> isClassType := True, isClass := True \<rparr>)
       [memberOf classText 10 16 14 15, memberOf classText 25 31 29 30,
        memberOf classText 41 47 45 46]"

definition structExample :: CSymbol where
  \<comment> \<open>\<open>struct S { int a; private: int b; };\<close>\<close>
  "structExample =
     withChildren
       ((exampleSymbol ''struct S { int a; private: int b; };'' 7 8)
          \<lparr> isClassType := True, isStruct := True \<rparr>)
       [memberOf ''struct S { int a; private: int b; };'' 11 17 15 16,
        memberOf ''struct S { int a; private: int b; };'' 27 33 31 32]"

definition derivedText :: string where
  "derivedText = ''class D : public B { int a; };''"

definition derivedClassExample :: CSymbol where
  \<comment> \<open>a class with a base clause, and its member \<open>a\<close>\<close>
  "derivedClassExample =
     withChildren ((exampleSymbol derivedText 6 7) \<lparr> isClassType := True, isClass := True \<rparr>)
       [memberOf derivedText 21 27 25 26]"

definition nestedClassText :: string where
  "nestedClassText = ''class C { struct S { public: int x; }; int a; };''"

definition nestedClassExample :: CSymbol where
  \<comment> \<open>a class whose children are the struct \<open>S\<close>, which has an access specifier of its own,
      and the member \<open>a\<close>\<close>
  "nestedClassExample =
     withChildren ((exampleSymbol nestedClassText 6 7) \<lparr> isClassType := True, isClass := True \<rparr>)
       [(exampleSymbol nestedClassText 17 18)
          \<lparr> rangeStart := 10, rangeEnd := 38, isClassType := True, isStruct := True \<rparr>,
        memberOf nestedClassText 39 45 43 44]"

definition anonymousStructVariable :: Symbol where
  \<comment> \<open>the variable \<open>foo\<close> of \<open>struct { int a; } foo;\<close>\<close>
  "anonymousStructVariable =
     (exampleSymbol ''struct { int a; } foo;'' 18 21) \<lparr> isVariable := True \<rparr>"

definition bracedDefaultParameter :: Symbol where
  \<comment> \<open>the function declaration \<open>void f(std::vector<int> v = {});\<close>\<close>
  "bracedDefaultParameter =
     (exampleSymbol ''void f(std::vector<int> v = {});'' 5 6) \<lparr> isFunction := True \<rparr>"

definition templateFunctionText :: string where
  "templateFunctionText =
     ''template <typename T>'' @ [CHR 0x0A] @ ''T get() { return T(); }''"

definition templateFunctionExample :: Symbol where
  \<comment> \<open>the function \<open>get\<close>, reported without its template statement\<close>
  "templateFunctionExample =
     (exampleSymbol templateFunctionText 24 27) \<lparr> rangeStart := 22, isFunction := True \<rparr>"

definition namespaceSymbol :: "string \<Rightarrow> string \<Rightarrow> int \<Rightarrow> int \<Rightarrow> Symbol" where
  \<comment> \<open>a namespace of \<open>doc\<close> with the given name and range\<close>
  "namespaceSymbol doc nm a b =
     (exampleSymbol doc a a) \<lparr> name := nm, rangeStart := a, rangeEnd := b, isNamespace := True \<rparr>"

definition nestedText :: string where
  "nestedText = ''namespace A { namespace { namespace N { void f(); } } }''"

definition nestedFunction :: CSymbol where
  \<comment> \<open>the function \<open>f\<close> of \<open>nestedText\<close>, inside \<open>A\<close>, an anonymous namespace and \<open>N\<close>\<close>
  "nestedFunction =
     (withChildren
        ((exampleSymbol nestedText 45 46) \<lparr> rangeStart := 40, rangeEnd := 49, isFunction := True \<rparr>)
        [])
       \<lparr> scopes := [namespaceSymbol nestedText ''A'' 0 55,
                     namespaceSymbol nestedText ''(anonymous namespace)'' 14 53,
                     namespaceSymbol nestedText ''N'' 26 51] \<rparr>"

definition insideA :: scopeContext where
  \<comment> \<open>a target document \<open>namespace A { }\<close> and a position between its braces\<close>
  "insideA =
     \<lparr> server = clangd,
       findMatchingSymbol =
         (\<lambda>scope. if name scope = ''A'' then Some (namespaceSymbol ''namespace A { }'' ''A'' 0 15)
                   else None),
       targetPosition = 13,
       namespacesOnly = False \<rparr>"

definition aliasA :: Symbol where
  \<comment> \<open>\<open>typedef B A;\<close> in the file \<open>a.h\<close>\<close>
  "aliasA =
     (exampleSymbol ''typedef B A;'' 10 11)
       \<lparr> uri := ''a.h'', mightBeTypedefOrTypeAlias := True \<rparr>"

definition aliasB :: Symbol where
  \<comment> \<open>\<open>typedef A B;\<close> in the file \<open>b.h\<close>\<close>
  "aliasB =
     (exampleSymbol ''typedef A B;'' 10 11)
       \<lparr> uri := ''b.h'', mightBeTypedefOrTypeAlias := True \<rparr>"

definition cyclicWorkspace :: workspace where
  \<comment> \<open>the definition of \<open>B\<close> in \<open>a.h\<close> is found in \<open>b.h\<close>, and that of \<open>A\<close> in \<open>b.h\<close> in \<open>a.h\<close>\<close>
  "cyclicWorkspace =
     \<lparr> findDefinitions =
         (\<lambda>u p. if u = ''a.h'' \<and> p = 8 then [(''b.h'', 0, 12)]
                 else if u = ''b.h'' \<and> p = 8 then [(''a.h'', 0, 12)]
                 else []),
       getSymbol =
         (\<lambda>u p. if u = ''a.h'' then Some aliasA else if u = ''b.h'' then Some aliasB else None) \<rparr>"

definition counterVariable :: Symbol where
  \<comment> \<open>the variable \<open>MyInt counter;\<close> in the file \<open>c.cpp\<close>\<close>
  "counterVariable =
     (exampleSymbol ''MyInt counter;'' 6 13) \<lparr> uri := ''c.cpp'', isVariable := True \<rparr>"

definition aliasMyInt :: Symbol where
  \<comment> \<open>\<open>typedef int MyInt;\<close> in the file \<open>types.h\<close>\<close>
  "aliasMyInt =
     (exampleSymbol ''typedef int MyInt;'' 12 17)
       \<lparr> uri := ''types.h'', mightBeTypedefOrTypeAlias := True \<rparr>"

definition aliasWorkspace :: workspace where
  "aliasWorkspace =
     \<lparr> findDefinitions = (\<lambda>u p. if u = ''c.cpp'' \<and> p = 0 then [(''types.h'', 0, 18)] else []),
       getSymbol = (\<lambda>u p. if u = ''types.h'' then Some aliasMyInt else None) \<rparr>"













section \<open>Notions used to state the properties\<close>

fun chain :: "string \<Rightarrow> nat \<Rightarrow> (nat \<times> nat) list \<Rightarrow> bool" where
  \<comment> \<open>the matches follow one another from \<open>pos\<close> on, inside \<open>s\<close>\<close>
  "chain s pos [] = True"
| "chain s pos ((b, e) # ms) = (pos \<le> b \<and> b \<le> e \<and> e \<le> length s \<and> chain s e ms)"

definition covered :: "(nat \<times> nat) list \<Rightarrow> nat \<Rightarrow> bool" where
  \<comment> \<open>position \<open>i\<close> lies inside one of the matches\<close>
  "covered ms i = list_ex (\<lambda>(b, e). b \<le> i \<and> i < e) ms"

definition lineCount :: "string \<Rightarrow> nat" where
  "lineCount s = length (splitChar s (CHR 0x0A))"

definition nestedTemplateExample :: string where
  "nestedTemplateExample = ''std::map<int, std::vector<int>> m; // a<b''"

definition brokenLineExample :: string where
  \<comment> \<open>a template argument list that spans two lines\<close>
  "brokenLineExample = [CHR ''A'', CHR ''<'', CHR 0x0A, CHR ''B'', CHR ''>'']"

definition masks :: "string \<Rightarrow> string \<Rightarrow> bool" where
  \<comment> \<open>\<open>t'\<close> is \<open>t\<close> with some characters replaced by the filler (a space)\<close>
  "masks t' t = list_all2 (\<lambda>y x. y = x \<or> y = CHR '' '') t' t"

definition maskingContract :: "parsing \<Rightarrow> bool" where
  \<comment> \<open>the contract of the maskers (specification, 4.1): the length is kept, and every
      character is kept or replaced by the filler\<close>
  "maskingContract P =
     (\<forall>t. masks (maskNonSourceText P t) t
          \<and> masks (maskParentheses P t) t
          \<and> masks (maskBraces P t) t
          \<and> (\<forall>k. masks (maskComments P t k) t \<and> masks (maskAngleBrackets P t k) t))"

definition wellFormed :: "'a Symbol_scheme \<Rightarrow> bool" where
  \<comment> \<open>the name range lies in the range, and the range in the document (specification, 3)\<close>
  "wellFormed s =
     (0 \<le> rangeStart s \<and> rangeStart s \<le> selectionStart s
      \<and> selectionStart s \<le> selectionEnd s \<and> selectionEnd s \<le> rangeEnd s
      \<and> rangeEnd s \<le> int (length (document s)))"

primrec aliasChainEnds :: "workspace \<Rightarrow> parsing \<Rightarrow> nat \<Rightarrow> Symbol \<Rightarrow> bool" where
  \<comment> \<open>the chain of alias definitions that starts at \<open>s\<close> ends after at most \<open>n\<close> steps\<close>
  "aliasChainEnds W P 0 s =
     (case isPrimitiveBody W P s True of Return b \<Rightarrow> True | Resolve t \<Rightarrow> False)"
| "aliasChainEnds W P (Suc n) s =
     (case isPrimitiveBody W P s True of Return b \<Rightarrow> True | Resolve t \<Rightarrow> aliasChainEnds W P n t)"






section \<open>Properties of the matcher\<close>

lemma star_bound:
  assumes f: "\<And>i j. i \<le> m \<Longrightarrow> j \<in> set (f i) \<Longrightarrow> i \<le> j \<and> j \<le> m"
  shows "i \<le> m \<Longrightarrow> j \<in> set (star f n i) \<Longrightarrow> i \<le> j \<and> j \<le> m"
proof (induction n arbitrary: i j)
  case 0
  from 0(2) have "j = i" by simp
  with 0(1) show ?case by simp
next
  case (Suc n)
  from Suc.prems(2) consider "j = i" | k where "k \<in> set (f i)" "i < k" "j \<in> set (star f n k)"
    by (auto split: if_splits)
  then show ?case
  proof cases
    case 1 with Suc.prems(1) show ?thesis by simp
  next
    case 2
    from f[OF Suc.prems(1) 2(1)] have km: "k \<le> m" by simp
    have "k \<le> j \<and> j \<le> m" using Suc.IH[OF km 2(3)] .
    with 2(2) show ?thesis by simp
  qed
qed

lemma ends_bound: "i \<le> length s \<Longrightarrow> j \<in> set (ends r s i) \<Longrightarrow> i \<le> j \<and> j \<le> length s"
proof (induction r arbitrary: i j)
  case (Cls p)
  from Cls(2) have "j = Suc i \<and> i < length s" by (simp split: if_splits)
  then show ?case by simp
next
  case Eps
  from Eps(2) have "j = i" by simp
  with Eps(1) show ?case by simp
next
  case (Seq a b)
  from Seq.prems(2) obtain k where k: "k \<in> set (ends a s i)" "j \<in> set (ends b s k)" by auto
  have ik: "i \<le> k \<and> k \<le> length s" using Seq.IH(1)[OF Seq.prems(1) k(1)] .
  then have kl: "k \<le> length s" by simp
  have "k \<le> j \<and> j \<le> length s" using Seq.IH(2)[OF kl k(2)] .
  with ik show ?case by simp
next
  case (Alt a b)
  from Alt.prems(2) have "j \<in> set (ends a s i) \<or> j \<in> set (ends b s i)" by simp
  then show ?case using Alt.IH(1)[OF Alt.prems(1)] Alt.IH(2)[OF Alt.prems(1)] by blast
next
  case (Star a)
  have js: "j \<in> set (star (ends a s) (length s - i) i)" using Star.prems(2) by simp
  show ?case
    by (rule star_bound[where f = "ends a s" and m = "length s", OF Star.IH Star.prems(1) js])
next
  case Bol
  from Bol(2) have "j = i" by (simp split: if_splits)
  with Bol(1) show ?case by simp
next
  case Eol
  from Eol(2) have "j = i" by (simp split: if_splits)
  with Eol(1) show ?case by simp
next
  case WordB
  from WordB(2) have "j = i" by (simp split: if_splits)
  with WordB(1) show ?case by simp
next
  case (Ahead p a)
  from Ahead(3) have "j = i" by (simp split: if_splits)
  with Ahead(2) show ?case by simp
next
  case (Behind p a)
  from Behind(3) have "j = i" by (simp split: if_splits)
  with Behind(2) show ?case by simp
qed

lemma searchFrom_bound:
  "searchFrom r s i n = Some (b, e) \<Longrightarrow> i + n \<le> length s \<Longrightarrow> i \<le> b \<and> b \<le> i + n \<and> b \<le> e \<and> e \<le> length s"
proof (induction n arbitrary: i)
  case 0
  then obtain es where es: "ends r s i = e # es" "b = i" by (auto split: list.splits)
  then have "e \<in> set (ends r s i)" by simp
  from ends_bound[OF _ this] 0(2) es(2) show ?case by simp
next
  case (Suc n)
  show ?case
  proof (cases "ends r s i")
    case Nil
    with Suc.prems(1) have "searchFrom r s (Suc i) n = Some (b, e)" by simp
    from Suc.IH[OF this] Suc.prems(2) show ?thesis by simp
  next
    case (Cons e' es)
    with Suc.prems(1) have be: "b = i" "e = e'" by simp_all
    with Cons have "e \<in> set (ends r s i)" by simp
    from ends_bound[OF _ this] Suc.prems(2) be show ?thesis by simp
  qed
qed

lemma re_exec_bound:
  "re_exec r s i = Some (b, e) \<Longrightarrow> i \<le> b \<and> b \<le> e \<and> e \<le> length s"
  using searchFrom_bound[of r s i "length s - i" b e]
  by (auto simp: re_exec_def split: if_splits)

lemma chain_mono: "chain s p ms \<Longrightarrow> q \<le> p \<Longrightarrow> chain s q ms"
  by (cases ms) auto

lemma matchAllFrom_chain: "chain s i (matchAllFrom r s i n)"
proof (induction n arbitrary: i)
  case 0 show ?case by simp
next
  case (Suc n)
  show ?case
  proof (cases "re_exec r s i")
    case None then show ?thesis by simp
  next
    case (Some m)
    obtain b e where m: "m = (b, e)" by (cases m)
    from re_exec_bound[of r s i b e] Some m have bd: "i \<le> b" "b \<le> e" "e \<le> length s" by simp_all
    have "chain s e (matchAllFrom r s (if e = b then Suc e else e) n)"
      by (rule chain_mono[OF Suc.IH]) simp
    with bd Some m show ?thesis by simp
  qed
qed

lemma matchAll_chain: "chain s 0 (matchAll r s)"
  unfolding matchAll_def by (rule matchAllFrom_chain)

lemma covered_before: "chain s p ms \<Longrightarrow> i < p \<Longrightarrow> \<not> covered ms i"
proof (induction ms arbitrary: p)
  case Nil show ?case by (simp add: covered_def)
next
  case (Cons m ms)
  obtain b e where m: "m = (b, e)" by (cases m)
  from Cons.prems m have c: "p \<le> b" "b \<le> e" "chain s e ms" by simp_all
  with Cons.prems(2) have "i < e" by simp
  from Cons.IH[OF c(3) this] have "\<not> covered ms i" .
  with c(1) Cons.prems(2) m show ?case by (simp add: covered_def)
qed

lemma replaceMatches_length:
  assumes f: "\<And>m. length (f m) = length m"
  shows "chain s p ms \<Longrightarrow> p \<le> length s \<Longrightarrow> length (replaceMatches f s p ms) = length s - p"
proof (induction ms arbitrary: p)
  case Nil show ?case by simp
next
  case (Cons m ms)
  obtain b e where m: "m = (b, e)" by (cases m)
  from Cons.prems m have c: "p \<le> b" "b \<le> e" "e \<le> length s" "chain s e ms" by simp_all
  from Cons.IH[OF c(4) c(3)] have "length (replaceMatches f s e ms) = length s - e" .
  with c m show ?case by (simp add: f)
qed

lemma replaceMatches_fill:
  "chain s p ms \<Longrightarrow> p \<le> length s \<Longrightarrow>
   replaceMatches (\<lambda>m. replicate (length m) c) s p ms
     = map (\<lambda>i. if covered ms i then c else s ! i) [p..<length s]"
proof (induction ms arbitrary: p)
  case Nil
  show ?case by (auto simp: covered_def intro: nth_equalityI)
next
  case (Cons m ms)
  obtain b e where m: "m = (b, e)" by (cases m)
  from Cons.prems m have c: "p \<le> b" "b \<le> e" "e \<le> length s" "chain s e ms" by simp_all
  let ?g = "\<lambda>i. if covered (m # ms) i then c else s ! i"
  have "[p..<length s] = [p..<b] @ [b..<length s]"
    using upt_add_eq_append[of p b "length s - b"] c by simp
  moreover have "[b..<length s] = [b..<e] @ [e..<length s]"
    using upt_add_eq_append[of b e "length s - e"] c by simp
  ultimately have split: "[p..<length s] = [p..<b] @ [b..<e] @ [e..<length s]"
    by simp
  have 1: "take (b - p) (drop p s) = map ?g [p..<b]"
  proof (rule nth_equalityI)
    show "length (take (b - p) (drop p s)) = length (map ?g [p..<b])" using c by simp
  next
    fix i assume "i < length (take (b - p) (drop p s))"
    then have i: "i < b - p" by simp
    then have lt: "p + i < b" by simp
    have "\<not> covered ms (p + i)" by (rule covered_before[OF c(4)]) (use i c in simp)
    with lt m have "\<not> covered (m # ms) (p + i)" by (simp add: covered_def)
    with i c show "take (b - p) (drop p s) ! i = map ?g [p..<b] ! i" by simp
  qed
  have 2: "replicate (length (take (e - b) (drop b s))) c = map ?g [b..<e]"
  proof (rule nth_equalityI)
    show "length (replicate (length (take (e - b) (drop b s))) c) = length (map ?g [b..<e])"
      using c by simp
  next
    fix i assume "i < length (replicate (length (take (e - b) (drop b s))) c)"
    then have i: "i < e - b" using c by simp
    then have "b + i < e" by simp
    then have "covered (m # ms) (b + i)" using m by (simp add: covered_def)
    with i c show "replicate (length (take (e - b) (drop b s))) c ! i = map ?g [b..<e] ! i" by simp
  qed
  have 3: "map (\<lambda>i. if covered ms i then c else s ! i) [e..<length s] = map ?g [e..<length s]"
    using m by (auto simp: covered_def)
  from Cons.IH[OF c(4) c(3)] 1 2 3 split m show ?case by simp
qed

lemma repeat_single: "repeat [c] n = replicate n c"
  by (induction n) (simp_all add: repeat_def)

lemma re_replaceAll_fill:
  "re_replaceAll r (\<lambda>m. repeat [c] (length m)) s
     = map (\<lambda>i. if covered (matchAll r s) i then c else s ! i) [0..<length s]"
  unfolding re_replaceAll_def repeat_single
  by (rule replaceMatches_fill[OF matchAll_chain]) simp

lemma offsets_ordered: "startOffset s \<le> endOffset s"
  by (simp add: startOffset_def endOffset_def offsetAt_def Range_def)

lemma maskChildren_returns: "\<exists>t. maskChildren doc off masked cs = Inr t"
proof (induction cs arbitrary: masked)
  case Nil
  show ?case by simp
next
  case (Cons child rest)
  from offsets_ordered[of "newCSymbol child doc"]
  have "\<not> (endOffset (newCSymbol child doc) - off)
            - (startOffset (newCSymbol child doc) - off) < 0" by simp
  then show ?case using Cons.IH by (simp add: Let_def)
qed

lemma accessSpecifiers_returns: "\<exists>specifiers. accessSpecifiers P s = Inr specifiers"
proof (cases "isClassType s")
  case False
  then show ?thesis by (simp add: accessSpecifiers_def)
next
  case True
  from maskChildren_returns[of "document s" "startOffset s" "parsableText P s" "children s"]
  obtain t where "maskChildren (document s) (startOffset s) (parsableText P s) (children s) = Inr t" ..
  with True show ?thesis by (simp add: accessSpecifiers_def Let_def)
qed

section \<open>Properties of the boundaries\<close>

lemma masks_maskBalanced: "masks (maskBalanced l r d t) t"
  by (induction t arbitrary: d) (auto simp: masks_def fill_def)

lemma masks_maskScan: "masks (maskScan cmts lits keep m t) t"
  by (induction cmts lits keep m t rule: maskScan.induct) (auto simp: masks_def fill_def)

lemma maskingContract_specParsing: "maskingContract specParsing"
  by (simp add: maskingContract_def specParsing_def masks_maskBalanced masks_maskScan)

lemma masks_length: "masks t' t \<Longrightarrow> length t' = length t"
  unfolding masks_def by (rule list_all2_lengthD)

lemma masks_nth: "masks t' t \<Longrightarrow> i < length t \<Longrightarrow> t' ! i = t ! i \<or> t' ! i = CHR '' ''"
  unfolding masks_def by (simp add: list_all2_conv_all_nth)

lemma positionAt_id: "0 \<le> x \<Longrightarrow> x \<le> int (length d) \<Longrightarrow> positionAt d x = x"
  by (simp add: positionAt_def)

lemma offsetAt_id: "0 \<le> x \<Longrightarrow> x \<le> int (length d) \<Longrightarrow> offsetAt d x = x"
  by (simp add: offsetAt_def)

lemma substring_take_drop:
  "0 \<le> a \<Longrightarrow> a \<le> b \<Longrightarrow> b \<le> int (length s) \<Longrightarrow> substring s a b = take (nat (b - a)) (drop (nat a) s)"
  by (simp add: substring_def Let_def min_def max_def nat_diff_distrib)

lemma length_substring:
  "0 \<le> a \<Longrightarrow> a \<le> b \<Longrightarrow> b \<le> int (length s) \<Longrightarrow> length (substring s a b) = nat (b - a)"
  by (simp add: substring_take_drop)

lemma substringFrom_drop:
  "0 \<le> a \<Longrightarrow> a \<le> int (length s) \<Longrightarrow> substringFrom s a = drop (nat a) s"
  by (simp add: substringFrom_def substring_take_drop)

lemma length_trimEnd: "length (trimEnd t) \<le> length t"
  unfolding trimEnd_def using length_dropWhile_le[of isSpace "rev t"] by simp

lemma re_search_bound: "re_search r t = - 1 \<or> (0 \<le> re_search r t \<and> re_search r t \<le> int (length t))"
proof (cases "re_exec r t 0")
  case None then show ?thesis by (simp add: re_search_def)
next
  case (Some m)
  obtain b e where m: "m = (b, e)" by (cases m)
  from re_exec_bound[of r t 0 b e] Some m have "b \<le> length t" by simp
  with Some m show ?thesis by (simp add: re_search_def)
qed

lemma wf_offsets:
  assumes "wellFormed s"
  shows "startOffset s = rangeStart s" "endOffset s = rangeEnd s"
    "offsetAt (document s) (selectionStart s) = selectionStart s"
    "offsetAt (document s) (selectionEnd s) = selectionEnd s"
  using assms
  by (simp_all add: wellFormed_def startOffset_def endOffset_def offsetAt_def Range_def)

lemma wf_symText:
  assumes "wellFormed s"
  shows "length (symText s) = nat (rangeEnd s - rangeStart s)"
proof -
  from assms have o: "0 \<le> rangeStart s" "rangeStart s \<le> rangeEnd s" "rangeEnd s \<le> int (length (document s))"
    by (simp_all add: wellFormed_def)
  then have "symText s = substring (document s) (rangeStart s) (rangeEnd s)"
    by (simp add: symText_def getText_def Range_def min_def max_def)
  with o show ?thesis by (simp add: length_substring)
qed

lemma wf_parsableText:
  assumes "maskingContract P" "wellFormed s"
  shows "length (parsableText P s) = nat (rangeEnd s - rangeStart s)"
proof -
  from assms(1) have "masks (maskNonSourceText P (symText s)) (symText s)"
    by (simp add: maskingContract_def)
  from masks_length[OF this] wf_symText[OF assms(2)] show ?thesis
    by (simp add: parsableText_def)
qed

lemma trueStart_le:
  assumes c: "maskingContract P" and w: "wellFormed s"
  shows "trueStart P s \<le> rangeStart s"
proof -
  let ?before = "getText (document s) (Range 0 (rangeStart s))"
  let ?m = "maskComments P ?before (Some False)"
  let ?m' = "trimEnd (maskAngleBrackets P ?m None)"
  from w have o: "0 \<le> rangeStart s" "rangeStart s \<le> int (length (document s))"
    by (simp_all add: wellFormed_def)
  then have "?before = substring (document s) 0 (rangeStart s)"
    by (simp add: getText_def Range_def)
  with o have lb: "length ?before = nat (rangeStart s)" by (simp add: length_substring)
  from c have "masks ?m ?before" by (simp add: maskingContract_def)
  from masks_length[OF this] lb have lm: "int (length ?m) = rangeStart s" using o by simp
  from c have "masks (maskAngleBrackets P ?m None) ?m" by (simp add: maskingContract_def)
  from masks_length[OF this] length_trimEnd[of "maskAngleBrackets P ?m None"] lm
  have lm': "int (length ?m') \<le> rangeStart s" by simp
  have pos: "\<And>x. x \<le> rangeStart s \<Longrightarrow> positionAt (document s) x \<le> rangeStart s"
    using o by (simp add: positionAt_def)
  have 1: "re_search re_namespaceHead ?m \<le> rangeStart s"
    using re_search_bound[of re_namespaceHead ?m] lm o by auto
  have 2: "re_search re_templateTail ?m' \<le> rangeStart s"
    using re_search_bound[of re_templateTail ?m'] lm' o by auto
  show ?thesis
    unfolding trueStart_def Let_def using pos[OF 1] pos[OF 2] by simp
qed

lemma declarationStart_bounds:
  assumes c: "maskingContract P" and w: "wellFormed s"
  shows "rangeStart s \<le> declarationStart P s \<and> declarationStart P s \<le> selectionStart s"
proof -
  let ?lead = "parsableLeadingText P s"
  let ?m = "maskAngleBrackets P ?lead None"
  from w have o: "0 \<le> rangeStart s" "rangeStart s \<le> selectionStart s"
    "selectionStart s \<le> rangeEnd s" "rangeEnd s \<le> int (length (document s))"
    by (simp_all add: wellFormed_def)
  have lp: "length (parsableText P s) = nat (rangeEnd s - rangeStart s)"
    by (rule wf_parsableText[OF c w])
  have "?lead = substring (parsableText P s) 0 (selectionStart s - rangeStart s)"
    by (simp add: parsableLeadingText_def wf_offsets[OF w])
  then have ll: "length ?lead = nat (selectionStart s - rangeStart s)"
    using o lp by (simp add: length_substring)
  from c have "masks ?m ?lead" by (simp add: maskingContract_def)
  from masks_length[OF this] ll have lm: "length ?m = nat (selectionStart s - rangeStart s)" by simp
  show ?thesis
  proof (cases "re_exec re_templateStatements ?m 0")
    case None
    with o show ?thesis by (simp add: declarationStart_def)
  next
    case (Some m)
    obtain b e where m: "m = (b, e)" by (cases m)
    from re_exec_bound[of re_templateStatements ?m 0 b e] Some m
    have be: "b \<le> e" "e \<le> length ?m" by simp_all
    with lm o have r: "0 \<le> rangeStart s + int (e - b)"
      "rangeStart s + int (e - b) \<le> selectionStart s" by linarith+
    with o have "positionAt (document s) (rangeStart s + int (e - b)) = rangeStart s + int (e - b)"
      by (simp add: positionAt_id)
    with Some m r o show ?thesis
      by (simp add: declarationStart_def wf_offsets[OF w] Let_def)
  qed
qed

lemma lastIndexFrom_char:
  "lastIndexFrom [c] s i best = r \<Longrightarrow>
   r = best \<or> (int i \<le> r \<and> r < int i + int (length s) \<and> s ! nat (r - int i) = c)"
proof (induction s arbitrary: i best)
  case Nil then show ?case by simp
next
  case (Cons x xs)
  let ?best = "if startsWith (x # xs) [c] then int i else best"
  from Cons.prems have "lastIndexFrom [c] xs (Suc i) ?best = r" by simp
  from Cons.IH[OF this] consider "r = ?best"
    | "int (Suc i) \<le> r" "r < int (Suc i) + int (length xs)" "xs ! nat (r - int (Suc i)) = c"
    by blast
  then show ?case
  proof cases
    case 1
    then show ?thesis by (auto simp: startsWith_def split: if_splits)
  next
    case 2
    from 2(1) have "nat (r - int i) = Suc (nat (r - int (Suc i)))" by simp
    with 2 show ?thesis by simp
  qed
qed

lemma lastIndexOf_char:
  "lastIndexOf s [c] = j \<Longrightarrow> j = - 1 \<or> (0 \<le> j \<and> j < int (length s) \<and> s ! nat j = c)"
  using lastIndexFrom_char[of c s 0 "- 1" j] by (simp add: lastIndexOf_def)

lemma searchFrom_leftmost:
  "ends r s k \<noteq> [] \<Longrightarrow> i \<le> k \<Longrightarrow> k \<le> i + n \<Longrightarrow>
   \<exists>b e. searchFrom r s i n = Some (b, e) \<and> b \<le> k"
proof (induction n arbitrary: i)
  case 0
  then have "k = i" by simp
  with 0(1) show ?case by (cases "ends r s i") simp_all
next
  case (Suc n)
  show ?case
  proof (cases "ends r s i")
    case (Cons e es)
    with Suc.prems(2) show ?thesis by simp
  next
    case Nil
    with Suc.prems(1) have "i \<noteq> k" by auto
    with Suc.prems have "Suc i \<le> k" "k \<le> Suc i + n" by simp_all
    from Suc.IH[OF Suc.prems(1) this] Nil show ?thesis by simp
  qed
qed

lemma re_search_leftmost:
  assumes "ends r s k \<noteq> []" "k \<le> length s"
  shows "re_search r s \<noteq> - 1 \<and> re_search r s \<le> int k"
proof -
  from searchFrom_leftmost[OF assms(1), of 0 "length s"] assms(2)
  obtain b e where "searchFrom r s 0 (length s) = Some (b, e)" "b \<le> k" by auto
  then show ?thesis by (simp add: re_search_def re_exec_def)
qed

lemma star_self: "i \<in> set (star f n i)"
  by (cases n) simp_all

lemma ends_brace:
  assumes "k < length t" "t ! k = CHR ''{''"
  shows "ends re_bodyOrSemicolon t k \<noteq> []"
proof -
  have "k \<in> set (ends Spaces t k)" by (simp add: Spaces_def star_self)
  moreover have "ends (Lit CHR ''{'') t k = [Suc k]" using assms by (simp add: Lit_def)
  ultimately have mem: "Suc k \<in> set (ends (Seq Spaces (Lit CHR ''{'')) t k)" by force
  have "xs \<noteq> []" if "x \<in> set xs" for x :: nat and xs
    using that by auto
  from this[OF mem] have "ends (Seq Spaces (Lit CHR ''{'')) t k \<noteq> []" .
  then show ?thesis unfolding re_bodyOrSemicolon_def by simp
qed

lemma declarationEnd_le:
  assumes c: "maskingContract P" and w: "wellFormed s"
  defines "ne \<equiv> selectionEnd s - rangeStart s"
  defines "x \<equiv> re_search re_bodyOrSemicolon (substringFrom (maskParentheses P (parsableText P s)) ne)"
  shows "declarationEnd P s \<le> rangeEnd s"
    and "x \<noteq> - 1 \<Longrightarrow> declarationEnd P s \<le> rangeStart s + ne + x"
proof -
  let ?mp = "maskParentheses P (parsableText P s)"
  let ?sub = "substringFrom ?mp ne"
  from w have o: "0 \<le> rangeStart s" "rangeStart s \<le> selectionEnd s"
    "selectionEnd s \<le> rangeEnd s" "rangeEnd s \<le> int (length (document s))"
    by (simp_all add: wellFormed_def)
  from c have "masks ?mp (parsableText P s)" by (simp add: maskingContract_def)
  from masks_length[OF this] wf_parsableText[OF c w]
  have lmp: "length ?mp = nat (rangeEnd s - rangeStart s)" by simp
  have ne: "0 \<le> ne" "ne \<le> int (length ?mp)" using o lmp by (simp_all add: ne_def)
  then have lsub: "int (length ?sub) = rangeEnd s - rangeStart s - ne"
    using lmp o by (simp add: substringFrom_drop ne_def)
  have xb: "x = - 1 \<or> (0 \<le> x \<and> x \<le> rangeEnd s - rangeStart s - ne)"
    using re_search_bound[of re_bodyOrSemicolon ?sub] lsub by (simp add: x_def)
  have main: "x \<noteq> - 1 \<Longrightarrow> declarationEnd P s \<le> rangeStart s + ne + x"
  proof -
    assume x1: "x \<noteq> - 1"
    with xb have x: "0 \<le> x" "x \<le> rangeEnd s - rangeStart s - ne" by simp_all
    have p1: "positionAt (document s) (rangeStart s + ne + x) = rangeStart s + ne + x"
      using x ne o by (simp add: positionAt_id)
    let ?y = "re_search re_initializerColon (substring ?mp ne (x + ne))"
    have "length (substring ?mp ne (x + ne)) = nat x"
      using x ne lmp o by (simp add: length_substring)
    with re_search_bound[of re_initializerColon "substring ?mp ne (x + ne)"] x
    have yb: "?y = - 1 \<or> (0 \<le> ?y \<and> ?y \<le> x)" by auto
    have p2: "?y \<noteq> - 1 \<Longrightarrow> positionAt (document s) (rangeStart s + ne + ?y) \<le> rangeStart s + ne + x"
      using yb x ne o by (simp add: positionAt_def)
    show ?thesis
      unfolding declarationEnd_def Let_def wf_offsets[OF w] ne_def[symmetric] x_def[symmetric]
      using x1 p1 p2 by simp
  qed
  show "x \<noteq> - 1 \<Longrightarrow> declarationEnd P s \<le> rangeStart s + ne + x" by (rule main)
  show "declarationEnd P s \<le> rangeEnd s"
  proof (cases "x = - 1")
    case True
    then show ?thesis
      unfolding declarationEnd_def Let_def wf_offsets[OF w] ne_def[symmetric] x_def[symmetric]
      by simp
  next
    case False
    from main[OF False] xb False show ?thesis by simp
  qed
qed

lemma bodyStart_value:
  assumes c: "maskingContract P" and w: "wellFormed s"
  defines "j \<equiv> lastIndexOf (maskBraces P (maskParentheses P (parsableText P s))) ''{''"
  shows "bodyStart P s = (if j = - 1 then rangeEnd s else rangeStart s + j + 1)"
    and "j = - 1 \<or> (0 \<le> j \<and> j < rangeEnd s - rangeStart s
          \<and> maskParentheses P (parsableText P s) ! nat j = CHR ''{'')"
proof -
  let ?mp = "maskParentheses P (parsableText P s)"
  let ?mb = "maskBraces P ?mp"
  from w have o: "0 \<le> rangeStart s" "rangeStart s \<le> rangeEnd s"
    "rangeEnd s \<le> int (length (document s))"
    by (simp_all add: wellFormed_def)
  from c have m1: "masks ?mp (parsableText P s)" and m2: "masks ?mb ?mp"
    by (simp_all add: maskingContract_def)
  from masks_length[OF m1] wf_parsableText[OF c w]
  have lmp: "length ?mp = nat (rangeEnd s - rangeStart s)" by simp
  with masks_length[OF m2] have lmb: "length ?mb = nat (rangeEnd s - rangeStart s)" by simp
  from lastIndexOf_char[of ?mb "CHR ''{''" j]
  have jb: "j = - 1 \<or> (0 \<le> j \<and> j < int (length ?mb) \<and> ?mb ! nat j = CHR ''{'')"
    by (simp add: j_def)
  show 2: "j = - 1 \<or> (0 \<le> j \<and> j < rangeEnd s - rangeStart s \<and> ?mp ! nat j = CHR ''{'')"
  proof (cases "j = - 1")
    case True then show ?thesis by simp
  next
    case False
    with jb have j: "0 \<le> j" "j < int (length ?mb)" "?mb ! nat j = CHR ''{''" by simp_all
    from j lmb lmp have "nat j < length ?mp" by linarith
    from masks_nth[OF m2 this] j(3) have "?mp ! nat j = CHR ''{''" by auto
    moreover from j lmb have "j < rangeEnd s - rangeStart s" by linarith
    ultimately show ?thesis using j(1) by simp
  qed
  show "bodyStart P s = (if j = - 1 then rangeEnd s else rangeStart s + j + 1)"
  proof (cases "j = - 1")
    case True
    then show ?thesis unfolding bodyStart_def Let_def j_def[symmetric] by simp
  next
    case False
    with 2 have "0 \<le> j" "j < rangeEnd s - rangeStart s" by simp_all
    with o have "positionAt (document s) (rangeStart s + j + 1) = rangeStart s + j + 1"
      by (simp add: positionAt_id)
    with False show ?thesis
      unfolding bodyStart_def Let_def j_def[symmetric] wf_offsets[OF w] by simp
  qed
qed

lemma bodyEnd_value:
  assumes c: "maskingContract P" and w: "wellFormed s"
  defines "k \<equiv> lastIndexOf (parsableText P s) ''}''"
  shows "bodyEnd P s = (if k = - 1 then rangeEnd s else rangeStart s + k)"
    and "k = - 1 \<or> (0 \<le> k \<and> k < rangeEnd s - rangeStart s)"
proof -
  from w have o: "0 \<le> rangeStart s" "rangeStart s \<le> rangeEnd s"
    "rangeEnd s \<le> int (length (document s))"
    by (simp_all add: wellFormed_def)
  from lastIndexOf_char[of "parsableText P s" "CHR ''}''" k] wf_parsableText[OF c w] o
  show 2: "k = - 1 \<or> (0 \<le> k \<and> k < rangeEnd s - rangeStart s)"
    by (auto simp: k_def)
  show "bodyEnd P s = (if k = - 1 then rangeEnd s else rangeStart s + k)"
  proof (cases "k = - 1")
    case True
    then show ?thesis unfolding bodyEnd_def Let_def k_def[symmetric] by simp
  next
    case False
    with 2 have "0 \<le> k" "k < rangeEnd s - rangeStart s" by simp_all
    with o have "positionAt (document s) (rangeStart s + k) = rangeStart s + k"
      by (simp add: positionAt_id)
    with False show ?thesis
      unfolding bodyEnd_def Let_def k_def[symmetric] wf_offsets[OF w] by simp
  qed
qed

lemma indexFrom_ge: "indexFrom p t i = - 1 \<or> int i \<le> indexFrom p t i"
proof (induction t arbitrary: i)
  case Nil show ?case by simp
next
  case (Cons c cs)
  from Cons.IH[of "Suc i"] show ?case by auto
qed

lemma indexOf_ge: "indexOf t p = - 1 \<or> 0 \<le> indexOf t p"
  using indexFrom_ge[of p t 0] by (simp add: indexOf_def)

lemma trueEnd_ge:
  assumes w: "wellFormed s"
  shows "rangeEnd s \<le> trueEnd P s"
proof -
  from w have o: "0 \<le> rangeEnd s" "rangeEnd s \<le> int (length (document s))"
    by (simp_all add: wellFormed_def)
  let ?i = "indexOf (maskNonSourceText P (getText (document s)
              (Range (rangeEnd s) (documentEnd (document s))))) '';''"
  have "?i \<noteq> - 1 \<Longrightarrow> rangeEnd s \<le> positionAt (document s) (rangeEnd s + ?i + 1)"
  proof -
    assume "?i \<noteq> - 1"
    with indexOf_ge[of _ "'';''"] have "0 \<le> ?i" by blast
    with o show ?thesis by (simp add: positionAt_def)
  qed
  then show ?thesis
    unfolding trueEnd_def Let_def wf_offsets[OF w] by simp
qed

section \<open>Properties of the walk over the scopes\<close>

lemma scopeWalk_acc: "scopeWalk U P X ss acc = acc @ scopeWalk U P X ss []"
proof (induction ss arbitrary: acc)
  case Nil show ?case by simp
next
  case (Cons sc rest)
  note ih = Cons.IH
  show ?case
    apply (simp only: scopeWalk.simps Let_def)
    apply (subst ih)
    apply (subst (2) ih)
    apply (subst (3) ih)
    apply (subst (4) ih)
    apply (subst (5) ih)
    apply (subst (6) ih)
    apply (subst (7) ih)
    apply (subst (8) ih)
    apply simp
    done
qed

lemma scopeWalk_append:
  "\<forall>x \<in> set pre. \<not> (namespacesOnly X \<and> isClassType x) \<Longrightarrow>
   scopeWalk U P X (pre @ post) acc = scopeWalk U P X post (scopeWalk U P X pre acc)"
proof (induction pre arbitrary: acc)
  case Nil show ?case by simp
next
  case (Cons sc rest)
  from Cons.prems have r: "\<forall>x \<in> set rest. \<not> (namespacesOnly X \<and> isClassType x)"
    and h': "\<not> (namespacesOnly X \<and> isClassType sc)" by simp_all
  from h' have h: "(namespacesOnly X \<and> isClassType sc) = False" by simp
  note ih = Cons.IH[OF r]
  show ?case by (simp add: Let_def ih h)
qed

section \<open>Properties of the alias resolution\<close>

lemma isPrimitiveBody_unresolved: "\<exists>b. isPrimitiveBody W P s False = Return b"
  by (auto simp: isPrimitiveBody_def Let_def)

lemma isPrimitive_unresolved: "\<exists>b. isPrimitive W P s False = Some b"
proof -
  from isPrimitiveBody_unresolved[of W P s] obtain b
    where "isPrimitiveBody W P s False = Return b" ..
  then have "isPrimitive W P s False = Some b"
    by (subst isPrimitive.simps) simp
  then show ?thesis ..
qed

lemma chain_returns: "aliasChainEnds W P n s \<Longrightarrow> \<exists>b. isPrimitive W P s True = Some b"
proof (induction n arbitrary: s)
  case 0
  then obtain b where "isPrimitiveBody W P s True = Return b"
    by (auto split: resolution.splits)
  then have "isPrimitive W P s True = Some b" by (subst isPrimitive.simps) simp
  then show ?case ..
next
  case (Suc n)
  show ?case
  proof (cases "isPrimitiveBody W P s True")
    case (Return b)
    then have "isPrimitive W P s True = Some b" by (subst isPrimitive.simps) simp
    then show ?thesis ..
  next
    case (Resolve t)
    with Suc.prems have "aliasChainEnds W P n t" by simp
    from Suc.IH[OF this] obtain b where "isPrimitive W P t True = Some b" ..
    with Resolve have "isPrimitive W P s True = Some b" by (subst isPrimitive.simps) simp
    then show ?thesis ..
  qed
qed

lemma returns_chain:
  assumes ret: "isPrimitive W P s r = Some y"
  shows "r \<longrightarrow> (\<exists>n. aliasChainEnds W P n s)"
proof -
  let ?Q = "\<lambda>(x :: ((workspace \<times> parsing) \<times> Symbol) \<times> bool) (y :: bool).
              snd x \<longrightarrow> (\<exists>n. aliasChainEnds (fst (fst (fst x))) (snd (fst (fst x))) n
                                   (snd (fst x)))"
  have "?Q (((W, P), s), r) y"
  proof (rule isPrimitive.raw_induct[where Pa = ?Q, OF _ ret])
    fix f :: "workspace \<Rightarrow> parsing \<Rightarrow> Symbol \<Rightarrow> bool \<Rightarrow> bool option"
      and W :: workspace and P :: parsing and s :: Symbol and r y :: bool
    assume ih: "\<And>W P s r y. f W P s r = Some y \<Longrightarrow> ?Q (((W, P), s), r) y"
      and eq: "(case isPrimitiveBody W P s r of Return b \<Rightarrow> Some b
                | Resolve t \<Rightarrow> f W P t True) = Some y"
    show "?Q (((W, P), s), r) y"
    proof (cases r)
      case False then show ?thesis by simp
    next
      case True
      show ?thesis
      proof (cases "isPrimitiveBody W P s True")
        case (Return b)
        then have "aliasChainEnds W P 0 s" by simp
        then have "\<exists>n. aliasChainEnds W P n s" ..
        then show ?thesis by simp
      next
        case (Resolve t)
        with eq True have "f W P t True = Some y" by simp
        from ih[OF this] obtain n where "aliasChainEnds W P n t" by auto
        with Resolve have "aliasChainEnds W P (Suc n) s" by simp
        then have "\<exists>n. aliasChainEnds W P n s" ..
        then show ?thesis by simp
      qed
    qed
  qed
  then show ?thesis by simp
qed

lemma cycle_never_ends:
  "\<not> aliasChainEnds cyclicWorkspace specParsing n aliasA
   \<and> \<not> aliasChainEnds cyclicWorkspace specParsing n aliasB"
proof -
  have a: "isPrimitiveBody cyclicWorkspace specParsing aliasA True = Resolve aliasB"
    by code_simp
  have b: "isPrimitiveBody cyclicWorkspace specParsing aliasB True = Resolve aliasA"
    by code_simp
  show ?thesis by (induction n) (simp_all add: a b)
qed

section \<open>The declaration of a definition\<close>































section \<open>The claims\<close>

text \<open>
  C10. For every symbol, \<open>isFunctionDeclaration\<close> and \<open>isFunctionDefinition\<close> are never both
  true; both are false when the function is deleted or defaulted, or pure virtual; and
  \<open>isPureVirtual\<close> implies \<open>isVirtual\<close>. This holds for every implementation of the maskers.
\<close>

theorem function_kind_exclusive:
  "\<not> (isFunctionDeclaration P s \<and> isFunctionDefinition P s)
   \<and> (isDeletedOrDefaulted P s \<or> isPureVirtual P s
        \<longrightarrow> \<not> isFunctionDeclaration P s \<and> \<not> isFunctionDefinition P s)
   \<and> (isPureVirtual P s \<longrightarrow> isVirtual P s)"
  by (auto simp: isFunctionDeclaration_def isFunctionDefinition_def isPureVirtual_def)

theorem function_kind_exclusive_witness:
  "isPureVirtual specParsing pureVirtualExample
   \<and> isVirtual specParsing pureVirtualExample
   \<and> \<not> isFunctionDeclaration specParsing pureVirtualExample
   \<and> \<not> isFunctionDefinition specParsing pureVirtualExample"
proof -
  have pure: "isPureVirtual specParsing pureVirtualExample"
    by code_simp
  from function_kind_exclusive [of specParsing pureVirtualExample] pure
  show ?thesis by blast
qed

text \<open>
  C1, as the claim states it, fails: for the member \<open>int m_count;\<close> with base name \<open>count\<close>
  the getter is named \<open>count\<close>, not \<open>get_count\<close>.
\<close>

theorem getterName_counterexample:
  "isMemberVariable countExample
   \<and> baseName countExample = ''count''
   \<and> name countExample = ''m_count''
   \<and> getterName snakeCase specParsing countExample = ''count''
   \<and> getterName snakeCase specParsing countExample \<noteq> ''get_count''"
  by code_simp

text \<open>
  C1, amended. For every member variable, with \<open>f\<close> the base name in the configured case
  style: when the boolean prefix is switched on, the type before the name mentions \<open>bool\<close>
  outside brackets and \<open>f\<close> does not start like a predicate, the getter is the formatted
  \<open>is_f\<close>; otherwise, when \<open>f\<close> differs from the raw name, the getter is \<open>f\<close> itself, with no
  prefix; otherwise (stripping changed nothing) it is the formatted \<open>get_f\<close>.
\<close>

theorem getterName_cases:
  fixes C :: configuration and P :: parsing and s :: "'a Symbol_scheme"
  assumes "isMemberVariable s"
  defines "f \<equiv> formatToCaseStyle C (baseName s) (uri s)"
  defines "isBool \<equiv> boolGetterIsPrefix C (uri s)
     \<and> re_test re_boolType
          (maskParentheses P (maskAngleBrackets P (parsableLeadingText P s) None))
     \<and> \<not> re_test re_isPrefix f"
  shows "(isBool \<longrightarrow> getterName C P s = formatToCaseStyle C (''is_'' @ f) (uri s))
       \<and> (\<not> isBool \<and> f \<noteq> name s \<longrightarrow> getterName C P s = f)
       \<and> (\<not> isBool \<and> f = name s
            \<longrightarrow> getterName C P s = formatToCaseStyle C (''get_'' @ name s) (uri s))"
  using assms(1) unfolding f_def isBool_def getterName_def Let_def by auto

theorem getterName_cases_witness:
  "isMemberVariable countExample
   \<and> formatToCaseStyle snakeCase (baseName countExample) (uri countExample)
        \<noteq> name countExample
   \<and> getterName snakeCase specParsing countExample
        = formatToCaseStyle snakeCase (baseName countExample) (uri countExample)"
proof -
  have mv: "isMemberVariable countExample"
    by code_simp
  have nb: "\<not> re_test re_boolType
      (maskParentheses specParsing
         (maskAngleBrackets specParsing (parsableLeadingText specParsing countExample) None))"
    by code_simp
  have ne: "formatToCaseStyle snakeCase (baseName countExample) (uri countExample)
      \<noteq> name countExample"
    by code_simp
  from getterName_cases [OF mv, of snakeCase specParsing] nb ne
  show ?thesis using mv by blast
qed

text \<open>
  C8, as the claim states it, fails: \<open>maskUnimportantText\<close> replaces a line break inside
  template brackets by the filler, so the masked text has fewer lines than the input.
\<close>

theorem maskUnimportantText_counterexample:
  "maskUnimportantText specUtility brokenLineExample '' '' = ''A<  >''
   \<and> lineCount brokenLineExample = 2
   \<and> lineCount (maskUnimportantText specUtility brokenLineExample '' '') = 1"
  by code_simp

text \<open>
  C8, amended. For every input text and every filler of one character \<open>c\<close>, when the maskers
  of comments and string literals (outside these files) return a text of the input's length
  in which every character is the input's or the filler, the masked output has exactly the
  length of the input, every character of it is the input's or the filler, and it differs
  from the text those maskers return exactly inside the template-parameter regions, which are
  filled with \<open>c\<close>. The number of lines is not part of the amended claim.
\<close>

theorem maskUnimportantText_preserves:
  fixes U :: utility and sourceText :: string and c :: char
  defines "masked \<equiv> util_maskStringLiterals U (util_maskComments U sourceText [c]) [c]"
  assumes contract: "list_all2 (\<lambda>y x. y = x \<or> y = c) masked sourceText"
  shows "length (maskUnimportantText U sourceText [c]) = length sourceText
       \<and> list_all2 (\<lambda>y x. y = x \<or> y = c) (maskUnimportantText U sourceText [c]) sourceText
       \<and> maskUnimportantText U sourceText [c]
           = map (\<lambda>i. if covered (matchAll re_templateParameters masked) i then c
                       else masked ! i) [0..<length sourceText]"
proof -
  let ?out = "maskUnimportantText U sourceText [c]"
  let ?g = "\<lambda>i. if covered (matchAll re_templateParameters masked) i then c else masked ! i"
  have len: "length masked = length sourceText"
    using contract by (rule list_all2_lengthD)
  have out: "?out = map ?g [0..<length sourceText]"
    unfolding maskUnimportantText_def Let_def masked_def [symmetric] re_replaceAll_fill len ..
  have pt: "list_all2 (\<lambda>y x. y = x \<or> y = c) ?out sourceText"
  proof (rule list_all2_all_nthI)
    show "length ?out = length sourceText" by (simp add: out)
  next
    fix n assume n: "n < length ?out"
    then have n': "n < length sourceText" by (simp add: out)
    with contract len have "masked ! n = sourceText ! n \<or> masked ! n = c"
      by (simp add: list_all2_conv_all_nth)
    with n' show "?out ! n = sourceText ! n \<or> ?out ! n = c" by (simp add: out)
  qed
  from out pt show ?thesis by simp
qed

theorem maskUnimportantText_preserves_witness:
  "list_all2 (\<lambda>y x. y = x \<or> y = CHR '' '')
     (util_maskStringLiterals specUtility
        (util_maskComments specUtility nestedTemplateExample '' '') '' '')
     nestedTemplateExample
   \<and> length (maskUnimportantText specUtility nestedTemplateExample '' '')
       = length nestedTemplateExample
   \<and> list_all2 (\<lambda>y x. y = x \<or> y = CHR '' '')
       (maskUnimportantText specUtility nestedTemplateExample '' '') nestedTemplateExample"
proof -
  have h: "list_all2 (\<lambda>y x. y = x \<or> y = CHR '' '')
     (util_maskStringLiterals specUtility
        (util_maskComments specUtility nestedTemplateExample '' '') '' '')
     nestedTemplateExample"
    by code_simp
  from maskUnimportantText_preserves [OF h] h show ?thesis by blast
qed

text \<open>
  C4. On the parameter list of the claim the code does not return
  \<open>int x, std::vector<int> y\<close>: the list is cut at every comma outside template brackets,
  the comma of the braced default value included, and the rest of that value stays.
\<close>

theorem stripDefaultValues_failing_input:
  "stripDefaultValues specUtility ''int x = 5, std::vector<int> y = {1,2}''
     = ''int x, std::vector<int> y ,2}''"
  by code_simp

text \<open>
  C9. A query asked of a symbol of a kind it does not apply to returns an empty result and
  raises nothing: \<open>getterName\<close> and \<open>setterName\<close> return the empty string for every symbol
  that is not a member variable, and \<open>findPositionForNewMemberFunction\<close> returns \<open>undefined\<close>
  (\<open>Inr None\<close>, not an exception \<open>Inl\<close>) for every symbol that is not a class or struct.
\<close>

theorem not_applicable_is_empty:
  "(\<not> isMemberVariable s \<longrightarrow> getterName C P s = [] \<and> setterName C s = [])
   \<and> (\<not> isClassType t
        \<longrightarrow> findPositionForNewMemberFunction C U P t access relativeName memberVariable
              = Inr None)"
  by (simp add: getterName_def setterName_def findPositionForNewMemberFunction_def)

theorem not_applicable_is_empty_witness:
  "\<not> isMemberVariable pureVirtualExample
   \<and> \<not> isClassType (withChildren pureVirtualExample [])
   \<and> getterName snakeCase specParsing pureVirtualExample = []
   \<and> setterName snakeCase pureVirtualExample = []
   \<and> findPositionForNewMemberFunction snakeCase specUtility specParsing
         (withChildren pureVirtualExample []) Public (Some ''f'') None = Inr None"
proof -
  have a: "\<not> isMemberVariable pureVirtualExample"
    by code_simp
  have b: "\<not> isClassType (withChildren pureVirtualExample [])"
    by code_simp
  from not_applicable_is_empty
         [of pureVirtualExample snakeCase specParsing "withChildren pureVirtualExample []"
             specUtility Public "Some ''f''" None]
       a b
  show ?thesis by blast
qed

text \<open>
  C3. For the class body \<open>class C { int a; public: int b; private: int c; };\<close> the ranges of
  private access are the two ranges whose texts are \<open>int a;\<close> and \<open>int c;\<close> (with the blanks
  around them), and the only range of public access is the one whose text is \<open>int b;\<close>; an
  access specifier inside a nested class is masked with that child and does not end the
  region of the enclosing class; and the region of a struct before its first specifier is of
  public access. But default access is not private for every class: for the derived class
  \<open>class D : public B { int a; };\<close> the colon of the base clause is taken for an access
  specifier, the only range of private access is the head \<open>D : public B {\<close>, and the member
  \<open>int a;\<close> has no private access.
\<close>

theorem rangesOfAccess_derived_class:
  "rangesOfAccess specUtility specParsing classExample Private = Inr [(9, 17), (40, 48)]
   \<and> map (getText classText) [(9, 17), (40, 48)] = ['' int a; '', '' int c; '']
   \<and> rangesOfAccess specUtility specParsing classExample Public = Inr [(24, 32)]
   \<and> getText classText (24, 32) = '' int b; ''
   \<and> rangesOfAccess specUtility specParsing nestedClassExample Private = Inr [(9, 46)]
   \<and> rangesOfAccess specUtility specParsing structExample Public = Inr [(10, 18)]
   \<and> rangesOfAccess specUtility specParsing structExample Private = Inr [(26, 34)]
   \<and> isClass derivedClassExample
   \<and> bodyStart specParsing derivedClassExample = 20
   \<and> bodyEnd specParsing derivedClassExample = 28
   \<and> accessSpecifiers specParsing derivedClassExample
        = Inr [\<lparr> subDocument = derivedText, subRange = (6, 9) \<rparr>]
   \<and> getText derivedText (6, 9) = ''D :''
   \<and> rangesOfAccess specUtility specParsing derivedClassExample Private = Inr [(6, 20)]
   \<and> getText derivedText (6, 20) = ''D : public B {''
   \<and> getText derivedText (21, 27) = ''int a;''
   \<and> positionHasAccess specUtility specParsing derivedClassExample 27 Private = Inr False"
  by code_simp

text \<open>
  C6, as the claim states it, fails. For the variable \<open>foo\<close> of \<open>struct { int a; } foo;\<close> the
  declaration ends at the semicolon (offset 21), after the start of the body (offset 8),
  because the brace that \<open>bodyStart\<close> finds stands before the name. For the declaration
  \<open>void f(std::vector<int> v = {});\<close> the body starts at the end of the range (offset 32),
  after the end of the body (offset 29), because \<open>bodyEnd\<close> finds a brace inside the
  parentheses.
\<close>

theorem boundary_order_counterexample:
  "wellFormed anonymousStructVariable
   \<and> declarationEnd specParsing anonymousStructVariable = 21
   \<and> bodyStart specParsing anonymousStructVariable = 8
   \<and> wellFormed bracedDefaultParameter
   \<and> bodyStart specParsing bracedDefaultParameter = 32
   \<and> bodyEnd specParsing bracedDefaultParameter = 29"
  by code_simp

text \<open>
  C6, amended. For every symbol whose name range lies in its range and whose range lies in
  the document, and for maskers that keep the length of a text and only replace characters
  by the filler: \<open>trueStart \<le> declarationStart \<le> start of the name\<close>, and
  \<open>bodyEnd \<le> trueEnd\<close>; \<open>declarationEnd \<le> bodyStart\<close> holds when \<open>bodyStart\<close> finds no opening
  brace or the brace it finds (the last one outside parentheses and outer braces, at index
  \<open>j\<close> of the symbol's text) is not before the end of the name; \<open>bodyStart \<le> bodyEnd\<close> holds
  when the text has no closing brace or its last closing brace (at index \<open>k\<close>) is after the
  brace that \<open>bodyStart\<close> finds.
\<close>

theorem boundary_order:
  fixes P :: parsing and s :: "'a Symbol_scheme"
  defines "j \<equiv> lastIndexOf (maskBraces P (maskParentheses P (parsableText P s))) ''{''"
  defines "k \<equiv> lastIndexOf (parsableText P s) ''}''"
  assumes c: "maskingContract P" and w: "wellFormed s"
  shows "trueStart P s \<le> declarationStart P s
       \<and> declarationStart P s \<le> selectionStart s
       \<and> (j = - 1 \<or> selectionEnd s - rangeStart s \<le> j
            \<longrightarrow> declarationEnd P s \<le> bodyStart P s)
       \<and> (k = - 1 \<or> (j \<noteq> - 1 \<and> j < k) \<longrightarrow> bodyStart P s \<le> bodyEnd P s)
       \<and> bodyEnd P s \<le> trueEnd P s"
proof -
  let ?mp = "maskParentheses P (parsableText P s)"
  let ?ne = "selectionEnd s - rangeStart s"
  let ?sub = "substringFrom ?mp ?ne"
  from w have o: "0 \<le> rangeStart s" "rangeStart s \<le> selectionEnd s"
    "selectionEnd s \<le> rangeEnd s" "rangeEnd s \<le> int (length (document s))"
    by (simp_all add: wellFormed_def)
  note bs = bodyStart_value[OF c w, folded j_def]
  note be = bodyEnd_value[OF c w, folded k_def]
  have 1: "trueStart P s \<le> declarationStart P s"
    using trueStart_le[OF c w] declarationStart_bounds[OF c w] by linarith
  have 2: "declarationStart P s \<le> selectionStart s"
    using declarationStart_bounds[OF c w] by simp
  have 3: "declarationEnd P s \<le> bodyStart P s" if "j = - 1 \<or> ?ne \<le> j"
  proof (cases "j = - 1")
    case True
    with bs(1) declarationEnd_le(1)[OF c w] show ?thesis by simp
  next
    case False
    with that bs(2) have j: "?ne \<le> j" "0 \<le> j" "j < rangeEnd s - rangeStart s"
      "?mp ! nat j = CHR ''{''" by simp_all
    from c have "masks ?mp (parsableText P s)" by (simp add: maskingContract_def)
    from masks_length[OF this] wf_parsableText[OF c w]
    have lmp: "length ?mp = nat (rangeEnd s - rangeStart s)" by simp
    have sub: "?sub = drop (nat ?ne) ?mp"
      using o lmp by (simp add: substringFrom_drop)
    have kl: "nat (j - ?ne) < length ?sub" using j o lmp sub by simp
    have "nat ?ne + nat (j - ?ne) = nat j" using j o by simp
    then have "?sub ! nat (j - ?ne) = ?mp ! nat j"
      using sub lmp j o by (simp add: nth_drop)
    with j(4) have "?sub ! nat (j - ?ne) = CHR ''{''" by simp
    from re_search_leftmost[OF ends_brace[OF kl this]] kl
    have x: "re_search re_bodyOrSemicolon ?sub \<noteq> - 1"
      "re_search re_bodyOrSemicolon ?sub \<le> j - ?ne"
      using j by simp_all
    from declarationEnd_le(2)[OF c w x(1)] x(2)
    have "declarationEnd P s \<le> rangeStart s + j" by simp
    with bs(1) False show ?thesis by simp
  qed
  have 4: "bodyStart P s \<le> bodyEnd P s" if "k = - 1 \<or> (j \<noteq> - 1 \<and> j < k)"
    using that bs be o by (auto split: if_splits)
  have 5: "bodyEnd P s \<le> trueEnd P s"
    using be trueEnd_ge[OF w, of P] o by (auto split: if_splits)
  from 1 2 3 4 5 show ?thesis by blast
qed

theorem boundary_order_witness:
  "maskingContract specParsing
   \<and> wellFormed templateFunctionExample
   \<and> lastIndexOf (maskBraces specParsing
         (maskParentheses specParsing (parsableText specParsing templateFunctionExample)))
         ''{'' = 8
   \<and> selectionEnd templateFunctionExample - rangeStart templateFunctionExample = 5
   \<and> lastIndexOf (parsableText specParsing templateFunctionExample) ''}'' = 22
   \<and> trueStart specParsing templateFunctionExample
        \<le> declarationStart specParsing templateFunctionExample
   \<and> declarationStart specParsing templateFunctionExample
        \<le> selectionStart templateFunctionExample
   \<and> declarationEnd specParsing templateFunctionExample
        \<le> bodyStart specParsing templateFunctionExample
   \<and> bodyStart specParsing templateFunctionExample
        \<le> bodyEnd specParsing templateFunctionExample
   \<and> bodyEnd specParsing templateFunctionExample \<le> trueEnd specParsing templateFunctionExample"
proof -
  have w: "wellFormed templateFunctionExample"
    by code_simp
  have j: "lastIndexOf (maskBraces specParsing
         (maskParentheses specParsing (parsableText specParsing templateFunctionExample)))
         ''{'' = 8"
    by code_simp
  have n: "selectionEnd templateFunctionExample - rangeStart templateFunctionExample = 5"
    by code_simp
  have k: "lastIndexOf (parsableText specParsing templateFunctionExample) ''}'' = 22"
    by code_simp
  from boundary_order [OF maskingContract_specParsing w] j n k
  show ?thesis using maskingContract_specParsing w by simp
qed

text \<open>
  C5. Let \<open>N\<close> be one of the scopes that enclose a symbol, and let the walk reach it (no class
  type up to it stops the walk under \<open>namespacesOnly\<close>). Then \<open>scopeString\<close> is the string for
  the scopes before \<open>N\<close>, then the qualifier of \<open>N\<close>, then the string for the scopes after \<open>N\<close>.
  The qualifier of \<open>N\<close> is empty exactly when the target position lies inside the matching
  scope of the target document or the scope is anonymous; otherwise it is, for a namespace,
  the name followed by \<open>::\<close> (the name is the one of the matching scope of the target
  document, or of \<open>N\<close> itself when there is none). So an anonymous scope adds nothing, and the
  scopes after it are still walked.
\<close>

theorem scopeString_qualifier:
  fixes U :: utility and P :: parsing and X :: scopeContext and s :: CSymbol
    and N :: Symbol
  defines "targetScope \<equiv> (case findMatchingSymbol X N of None \<Rightarrow> N | Some t \<Rightarrow> t)"
  defines "inside \<equiv> findMatchingSymbol X N \<noteq> None
     \<and> containsExclusive U
          (Range (rangeStart (the (findMatchingSymbol X N)))
                 (rangeEnd (the (findMatchingSymbol X N))))
          (targetPosition X)"
  assumes nested: "scopes s = pre @ N # post"
    and walk: "\<forall>x \<in> set (pre @ [N]). \<not> (namespacesOnly X \<and> isClassType x)"
  shows "scopeString U P X s
       = scopeWalk U P X pre []
         @ (if inside \<or> isAnonymous (server X) targetScope then []
            else if isNamespace targetScope then name targetScope @ ''::''
            else getText (document targetScope)
                   (Range (scopeStringStart P targetScope) (selectionEnd targetScope))
                 @ templateParameters P targetScope @ ''::'')
         @ scopeWalk U P X
             (post @ (if isClassType s \<or> isNamespace s then [Symbol.truncate s] else [])) []"
proof -
  let ?post = "post @ (if isClassType s \<or> isNamespace s then [Symbol.truncate s] else [])"
  let ?q = "if inside \<or> isAnonymous (server X) targetScope then []
            else if isNamespace targetScope then name targetScope @ ''::''
            else getText (document targetScope)
                   (Range (scopeStringStart P targetScope) (selectionEnd targetScope))
                 @ templateParameters P targetScope @ ''::''"
  have l: "(if isClassType s \<or> isNamespace s then scopes s @ [Symbol.truncate s] else scopes s)
           = pre @ (N # ?post)"
    using nested by simp
  from walk have wp: "\<forall>x \<in> set pre. \<not> (namespacesOnly X \<and> isClassType x)"
    and wn': "\<not> (namespacesOnly X \<and> isClassType N)" by simp_all
  from wn' have wn: "(namespacesOnly X \<and> isClassType N) = False" by simp
  have step: "scopeWalk U P X (N # ?post) acc = scopeWalk U P X ?post (acc @ ?q)" for acc
    unfolding inside_def targetScope_def
    by (cases "findMatchingSymbol X N") (simp_all add: Let_def wn)
  have "scopeString U P X s = scopeWalk U P X (N # ?post) (scopeWalk U P X pre [])"
    unfolding scopeString_def l by (rule scopeWalk_append[OF wp])
  also have "\<dots> = scopeWalk U P X ?post (scopeWalk U P X pre [] @ ?q)"
    by (rule step)
  also have "\<dots> = (scopeWalk U P X pre [] @ ?q) @ scopeWalk U P X ?post []"
    by (rule scopeWalk_acc)
  finally show ?thesis by simp
qed

theorem scopeString_qualifier_witness:
  "scopeString specUtility specParsing insideA nestedFunction = ''N::''
   \<and> scopeString specUtility specParsing (insideA \<lparr> targetPosition := 0 \<rparr>) nestedFunction
       = ''A::N::''"
proof -
  let ?A = "namespaceSymbol nestedText ''A'' 0 55"
  let ?anon = "namespaceSymbol nestedText ''(anonymous namespace)'' 14 53"
  let ?N = "namespaceSymbol nestedText ''N'' 26 51"
  let ?out = "insideA \<lparr> targetPosition := 0 \<rparr>"
  have sc: "scopes nestedFunction = [?A, ?anon] @ ?N # []"
    by code_simp
  have w1: "\<forall>x \<in> set ([?A, ?anon] @ [?N]). \<not> (namespacesOnly insideA \<and> isClassType x)"
    by code_simp
  have w2: "\<forall>x \<in> set ([?A, ?anon] @ [?N]). \<not> (namespacesOnly ?out \<and> isClassType x)"
    by code_simp
  have n1: "isNamespace (case findMatchingSymbol insideA ?N of None \<Rightarrow> ?N | Some t \<Rightarrow> t)"
    by code_simp
  have n2: "isNamespace (case findMatchingSymbol ?out ?N of None \<Rightarrow> ?N | Some t \<Rightarrow> t)"
    by code_simp
  have e1: "scopeWalk specUtility specParsing insideA [?A, ?anon] [] = []"
    "scopeWalk specUtility specParsing ?out [?A, ?anon] [] = ''A::''"
    by code_simp+
  have e2: "findMatchingSymbol insideA ?N = None" "findMatchingSymbol ?out ?N = None"
    "\<not> isAnonymous (server insideA) ?N" "\<not> isAnonymous (server ?out) ?N"
    "name ?N = ''N''"
    "\<not> (isClassType nestedFunction \<or> isNamespace nestedFunction)"
    by code_simp+
  from scopeString_qualifier [OF sc w1, of specUtility specParsing] e1 e2 n1
  have a: "scopeString specUtility specParsing insideA nestedFunction = ''N::''"
    by simp
  from scopeString_qualifier [OF sc w2, of specUtility specParsing] e1 e2 n2
  have b: "scopeString specUtility specParsing ?out nestedFunction = ''A::N::''"
    by simp
  from a b show ?thesis by simp
qed

text \<open>
  C2, as the claim states it, fails: when the definition of the type named in
  \<open>typedef B A;\<close> is \<open>typedef A B;\<close> and the definition of the type named there is
  \<open>typedef B A;\<close> again, \<open>isPrimitive(true)\<close> does not return.
\<close>

theorem isPrimitive_cycle_counterexample:
  "isPrimitive cyclicWorkspace specParsing aliasA True = None"
proof (cases "isPrimitive cyclicWorkspace specParsing aliasA True")
  case None
  then show ?thesis .
next
  case (Some y)
  from returns_chain[OF this] cycle_never_ends show ?thesis by blast
qed

text \<open>
  C2, amended. \<open>isPrimitive(false)\<close> returns for every symbol. \<open>isPrimitive(true)\<close> returns
  exactly when the chain of alias definitions that it follows from the symbol ends after
  finitely many steps; on a cyclic chain it does not return.
\<close>

theorem isPrimitive_terminates:
  "(\<exists>b. isPrimitive W P s False = Some b)
   \<and> ((\<exists>b. isPrimitive W P s True = Some b) = (\<exists>n. aliasChainEnds W P n s))"
proof -
  have "\<exists>n. aliasChainEnds W P n s" if "isPrimitive W P s True = Some b" for b
    using returns_chain[OF that] by simp
  with chain_returns[of W P _ s] isPrimitive_unresolved[of W P s]
  show ?thesis by blast
qed

theorem isPrimitive_terminates_witness:
  "aliasChainEnds aliasWorkspace specParsing 1 counterVariable
   \<and> (\<exists>b. isPrimitive aliasWorkspace specParsing counterVariable True = Some b)"
proof -
  have c: "aliasChainEnds aliasWorkspace specParsing 1 counterVariable"
    by code_simp
  from isPrimitive_terminates [of aliasWorkspace specParsing counterVariable] c
  show ?thesis by blast
qed




end
